theory Spec2Isabelle
  imports Main "HOL-Library.Sublist" "HOL-Library.Multiset"
begin

section \<open>bup-cron: exceptions, environment and program state\<close>

text \<open>
  The program is \<^verbatim>\<open>src/bup_cron/__init__.py\<close>, a Python 3 script. Its
  functions are embedded as state-passing functions that return either an exception or a
  value. Everything the script asks of the operating system (external commands, the
  process table, the lock file's directory) is answered by an environment record, so a
  theorem that quantifies over the environment holds for every machine.
\<close>

datatype errno = EEXIST | EACCES | ENOENT | EPERM | ESRCH | ECHILD | EOTHER

text \<open>The second argument of \<^verbatim>\<open>ProcessRunningException(path, pid)\<close>: the integer
  that \<^verbatim>\<open>_check\<close> returned, or the raw text of the lock file.\<close>

datatype pid_info = PidInt int | PidRaw string

datatype exn =
    OSError errno
  | ProcessRunningException string pid_info
  | ValueError
  | TypeError
  | IndexError
  | AttributeError
  | NameError
  | UnboundLocalError
  | UnicodeDecodeError
  | OverflowError
  | CalledProcessError
  | SystemExit int

text \<open>What \<^verbatim>\<open>subprocess.check_call\<close> does with a command: it exits with status 0,
  it exits with another status (\<^verbatim>\<open>CalledProcessError\<close>), or it cannot be started
  (\<^verbatim>\<open>OSError\<close>).\<close>

datatype proc_result = Exit0 | ExitFail | NoSpawn errno

text \<open>What \<^verbatim>\<open>os.kill(pid, 0)\<close> does: the signal is deliverable, the call fails with an
  errno, or the pid does not fit a C integer.\<close>

datatype kill_result = Delivered | KillError errno | KillOverflow

text \<open>The attribute \<^verbatim>\<open>self.pidfd\<close> of the \<^verbatim>\<open>Pidfile\<close> object: never assigned,
  assigned \<^verbatim>\<open>None\<close>, or a file descriptor.\<close>

datatype pidfd_attr = Unset | IsNone | Fd nat

datatype snapshot_class = NoSnapshot | LvmSnapshot

text \<open>The fields of a \<^verbatim>\<open>Snapshot\<close> object. \<^verbatim>\<open>vg_lv\<close> is \<^verbatim>\<open>None\<close>,
  \<^verbatim>\<open>False\<close> (both \<open>None\<close> here, both falsy and both unsubscriptable) or a tuple of
  strings.\<close>

record Snapshot =
  cls :: snapshot_class
  src_path :: string
  path :: string
  snap_size :: string
  snap_verbose :: int
  mountpattern :: string
  exists :: bool
  vg_lv :: "string list option"

text \<open>The parsed command line, as \<^verbatim>\<open>parse_args\<close> hands it to \<^verbatim>\<open>main\<close>. An option
  that is \<^verbatim>\<open>None\<close> or a list that is \<^verbatim>\<open>None\<close> is \<open>None\<close> or \<open>[]\<close>.\<close>

record args =
  paths :: "string list"
  name :: "string option"
  branch_name :: "string option"
  remote :: "string option"
  exclude :: "string list"
  exclude_rx :: "string list"
  exclude_from :: "string list"
  exclude_rx_from :: "string list"
  clear :: bool
  parity :: bool
  check :: bool
  repair :: bool
  snapshot :: string
  size_opt :: string
  mountpoint :: string
  stats :: bool
  verbose :: int
  debug :: bool
  pidfile :: string

text \<open>
  The environment: the answers of the operating system, fixed for a run.
  \<^item> \<open>run n cmd\<close>: the result of \<open>cmd\<close> when \<open>n\<close> commands were started before it;
  \<^item> \<open>proc_entry pid\<close>: \<^verbatim>\<open>os.path.exists("/proc/%d" % pid)\<close>; \<open>kill0 pid\<close>:
    \<^verbatim>\<open>os.kill(pid, 0)\<close>;
  \<^item> \<open>dir_err\<close>: the error of creating or removing an entry in the lock file's directory
    (\<open>None\<close>: permitted); \<open>read_err\<close>: the error of opening the lock file for reading;
    \<open>open_fd\<close>: the descriptor \<^verbatim>\<open>os.open\<close> returns (the lowest free one);
  \<^item> \<open>decode_other s\<close>: the text \<^verbatim>\<open>f.read()\<close> returns for a file whose bytes \<open>s\<close> are
    not all ASCII (\<open>None\<close>: \<^verbatim>\<open>UnicodeDecodeError\<close>; it depends on the locale's
    encoding); \<open>int_other t\<close>: \<^verbatim>\<open>int(t)\<close> for a text that is not ASCII or is longer than
    640 characters (\<open>None\<close>: \<^verbatim>\<open>ValueError\<close>; it depends on the Unicode tables and on
    the interpreter's limit on the number of digits);
  \<^item> \<open>wait_err n\<close>: the \<open>n\<close>-th \<^verbatim>\<open>os.wait()\<close> (\<open>None\<close>: a child was reaped);
  \<^item> \<open>mount_device m\<close>: what \<^verbatim>\<open>find_device(m)\<close> returns, the device its regular
    expression finds in the output of \<^verbatim>\<open>mount\<close>, \<open>None\<close> for the \<^verbatim>\<open>False\<close> it
    returns when nothing matches or the matching raises, or the exception of running
    \<^verbatim>\<open>mount\<close>; \<open>lvs_vg_lv d\<close>: what \<^verbatim>\<open>find_vg_lv(d)\<close> returns, the tuple cut from the
    output of \<^verbatim>\<open>lvs\<close>, \<open>None\<close> for \<^verbatim>\<open>False\<close>, or an exception. Under Python 3
    \<^verbatim>\<open>check_output\<close> returns bytes, matching a \<^verbatim>\<open>str\<close> pattern against them raises
    \<^verbatim>\<open>TypeError\<close>, and the bare \<^verbatim>\<open>except\<close> of \<^verbatim>\<open>find_device\<close> turns that into
    \<^verbatim>\<open>False\<close>: there \<open>mount_device\<close> answers \<open>Inr None\<close> for every mount point, as it
    does on the machines of the examples below;
  \<^item> \<open>format_mount pattern t\<close>: Python's \<^verbatim>\<open>pattern % t\<close>; \<open>relpath\<close>, \<open>realpath\<close>:
    \<^verbatim>\<open>os.path.relpath\<close>, \<^verbatim>\<open>os.path.realpath\<close>;
  \<^item> \<open>makedirs_err\<close>, \<open>isdir\<close>: \<^verbatim>\<open>os.makedirs\<close>, \<^verbatim>\<open>os.path.isdir\<close>;
  \<^item> \<open>stats_err n\<close>: the exception, if any, that the statistics collaborator
    (\<^verbatim>\<open>BupCronMetaData\<close>) raises when \<open>n\<close> commands were started before.
\<close>

record env =
  run :: "nat \<Rightarrow> string list \<Rightarrow> proc_result"
  hostname :: string
  getpid :: nat
  repo_exists :: bool
  proc_entry :: "int \<Rightarrow> bool"
  kill0 :: "int \<Rightarrow> kill_result"
  dir_err :: "errno option"
  read_err :: "errno option"
  open_fd :: nat
  decode_other :: "string \<Rightarrow> string option"
  int_other :: "string \<Rightarrow> int option"
  wait_err :: "nat \<Rightarrow> errno option"
  mount_device :: "string \<Rightarrow> exn + string option"
  lvs_vg_lv :: "string \<Rightarrow> exn + string list option"
  format_mount :: "string \<Rightarrow> string list option \<Rightarrow> exn + string"
  relpath :: "string \<Rightarrow> string \<Rightarrow> string"
  realpath :: "string \<Rightarrow> string"
  makedirs_err :: "string \<Rightarrow> errno option"
  isdir :: "string \<Rightarrow> bool"
  stats_err :: "nat \<Rightarrow> exn option"

text \<open>
  The program state: the commands started so far (oldest first), the content of the lock
  file (\<open>None\<close>: no file), the \<^verbatim>\<open>Pidfile\<close> object's descriptor, the mounted
  directories, the block devices, the number of \<^verbatim>\<open>os.wait()\<close> calls, and the
  \<^verbatim>\<open>Snapshot\<close> object of the path being processed.
\<close>

record world =
  trace :: "string list list"
  lockfile :: "string option"
  pidfd :: pidfd_attr
  mounted :: "string list"
  blkdevs :: "string list"
  nwait :: nat
  snap :: Snapshot

type_synonym 'a io = "world \<Rightarrow> (exn + 'a) \<times> world"

definition returnE :: "'a \<Rightarrow> 'a io" where
  "returnE x w = (Inr x, w)"

definition raiseE :: "exn \<Rightarrow> 'a io" where
  "raiseE e w = (Inl e, w)"

definition bindE :: "'a io \<Rightarrow> ('a \<Rightarrow> 'b io) \<Rightarrow> 'b io" where
  "bindE m f w = (case m w of (Inl e, w') \<Rightarrow> (Inl e, w') | (Inr x, w') \<Rightarrow> f x w')"

text \<open>Lifting a pure computation that may raise.\<close>

definition liftE :: "exn + 'a \<Rightarrow> 'a io" where
  "liftE r w = (r, w)"

text \<open>
  The \<^verbatim>\<open>with\<close> statement. If \<^verbatim>\<open>__enter__\<close> raises, \<^verbatim>\<open>__exit__\<close> is not called.
  Otherwise \<^verbatim>\<open>__exit__\<close> is called with the body's exception (or with none); an exception
  of \<^verbatim>\<open>__exit__\<close> replaces the body's, and a true return value suppresses the body's
  exception (the result is then \<open>None\<close>).
\<close>

definition with_stmt :: "unit io \<Rightarrow> (exn option \<Rightarrow> bool io) \<Rightarrow> 'a io \<Rightarrow> 'a option io" where
  "with_stmt enter exit body w =
     (case enter w of
        (Inl e, w1) \<Rightarrow> (Inl e, w1)
      | (Inr _, w1) \<Rightarrow>
          (case body w1 of
             (Inr x, w2) \<Rightarrow>
               (case exit None w2 of
                  (Inl e', w3) \<Rightarrow> (Inl e', w3)
                | (Inr _, w3) \<Rightarrow> (Inr (Some x), w3))
           | (Inl e, w2) \<Rightarrow>
               (case exit (Some e) w2 of
                  (Inl e', w3) \<Rightarrow> (Inl e', w3)
                | (Inr suppress, w3) \<Rightarrow> if suppress then (Inr None, w3) else (Inl e, w3))))"

section \<open>Python's string functions\<close>

text \<open>Truth value of a string option: \<^verbatim>\<open>None\<close> and \<^verbatim>\<open>""\<close> are false.\<close>

definition truthy :: "string option \<Rightarrow> bool" where
  "truthy s = (case s of None \<Rightarrow> False | Some t \<Rightarrow> t \<noteq> [])"

text \<open>\<^verbatim>\<open>s.replace("/", "_")\<close>.\<close>

definition replace_slash :: "string \<Rightarrow> string" where
  "replace_slash s = map (\<lambda>c. if c = CHR ''/'' then CHR ''_'' else c) s"

text \<open>\<^verbatim>\<open>s.lower()\<close> on ASCII text.\<close>

definition lower_char :: "char \<Rightarrow> char" where
  "lower_char c =
     (case map_of (zip ''ABCDEFGHIJKLMNOPQRSTUVWXYZ'' ''abcdefghijklmnopqrstuvwxyz'') c of
        None \<Rightarrow> c | Some d \<Rightarrow> d)"

definition lower :: "string \<Rightarrow> string" where
  "lower s = map lower_char s"

text \<open>\<^verbatim>\<open>needle in hay\<close> for strings.\<close>

fun is_substr :: "string \<Rightarrow> string \<Rightarrow> bool" where
  "is_substr needle [] = (needle = [])"
| "is_substr needle (c # cs) = (take (length needle) (c # cs) = needle \<or> is_substr needle cs)"

text \<open>\<^verbatim>\<open>s.split(sep)\<close> for a separator of one character.\<close>

fun split_on :: "char \<Rightarrow> string \<Rightarrow> string list" where
  "split_on sep [] = [[]]"
| "split_on sep (c # cs) =
     (if c = sep then [] # split_on sep cs
      else (case split_on sep cs of [] \<Rightarrow> [[c]] | p # ps \<Rightarrow> (c # p) # ps))"

text \<open>\<^verbatim>\<open>str(n)\<close> for a natural number.\<close>

definition digit_char :: "nat \<Rightarrow> char" where
  "digit_char d = ''0123456789'' ! d"

fun str_nat :: "nat \<Rightarrow> string" where
  "str_nat n = (if n < 10 then [digit_char n] else str_nat (n div 10) @ [digit_char (n mod 10)])"

text \<open>
  \<^verbatim>\<open>int(s)\<close> on ASCII text: surrounding white space (tab, newline, vertical tab, form
  feed, carriage return, space) is dropped, one sign is allowed, and single underscores
  may stand between digits. \<open>None\<close> is \<^verbatim>\<open>ValueError\<close>.
\<close>

definition py_isspace :: "char \<Rightarrow> bool" where
  "py_isspace c = (c \<in> set [CHR 0x09, CHR 0x0A, CHR 0x0B, CHR 0x0C, CHR 0x0D, CHR 0x20])"

definition py_strip :: "string \<Rightarrow> string" where
  "py_strip s = rev (dropWhile py_isspace (rev (dropWhile py_isspace s)))"

definition digit_val :: "char \<Rightarrow> nat option" where
  "digit_val c = map_of (zip ''0123456789'' [0, 1, 2, 3, 4, 5, 6, 7, 8, 9]) c"

fun parse_digits :: "nat \<Rightarrow> bool \<Rightarrow> string \<Rightarrow> nat option" where
  "parse_digits acc after_digit [] = (if after_digit then Some acc else None)"
| "parse_digits acc after_digit (c # cs) =
     (if c = CHR ''_'' then (if after_digit \<and> cs \<noteq> [] then parse_digits acc False cs else None)
      else (case digit_val c of
              None \<Rightarrow> None
            | Some d \<Rightarrow> parse_digits (10 * acc + d) True cs))"

definition py_int :: "string \<Rightarrow> int option" where
  "py_int s =
     (case py_strip s of
        [] \<Rightarrow> None
      | c # cs \<Rightarrow>
          if c = CHR ''-'' then map_option (\<lambda>n. - int n) (parse_digits 0 False cs)
          else if c = CHR ''+'' then map_option int (parse_digits 0 False cs)
          else map_option int (parse_digits 0 False (c # cs)))"

text \<open>
  A file opened with \<^verbatim>\<open>open(path, "r")\<close> is read as text. Bytes that are all ASCII
  decode to themselves in every locale, and a carriage return, with or without a line
  feed after it, is read as one line feed; what other bytes decode to is the
  environment's answer. \<open>None\<close> is
  \<^verbatim>\<open>UnicodeDecodeError\<close>.
\<close>

definition is_ascii :: "string \<Rightarrow> bool" where
  "is_ascii s = list_all (\<lambda>c. \<not> digit7 c) s"

fun universal_newlines :: "string \<Rightarrow> string" where
  "universal_newlines [] = []"
| "universal_newlines [c] = (if c = CHR 0x0D then [CHR 0x0A] else [c])"
| "universal_newlines (c # d # cs) =
     (if c = CHR 0x0D then
        (if d = CHR 0x0A then CHR 0x0A # universal_newlines cs
         else CHR 0x0A # universal_newlines (d # cs))
      else c # universal_newlines (d # cs))"

definition read_text :: "env \<Rightarrow> string \<Rightarrow> string option" where
  "read_text E s = (if is_ascii s then Some (universal_newlines s) else decode_other E s)"

text \<open>
  \<^verbatim>\<open>int(t)\<close> for a text: computed for ASCII text of at most 640 characters (no limit
  on digits can be set below that), the environment's answer otherwise.
\<close>

definition int_of_text :: "env \<Rightarrow> string \<Rightarrow> int option" where
  "int_of_text E t = (if is_ascii t \<and> length t \<le> 640 then py_int t else int_other E t)"

text \<open>\<^verbatim>\<open>os.path.dirname\<close> and \<^verbatim>\<open>os.path.join\<close> of two components (posixpath).\<close>

definition dirname :: "string \<Rightarrow> string" where
  "dirname p =
     (let head = rev (dropWhile (\<lambda>c. c \<noteq> CHR ''/'') (rev p))
      in if head \<noteq> [] \<and> \<not> list_all (\<lambda>c. c = CHR ''/'') head
         then rev (dropWhile (\<lambda>c. c = CHR ''/'') (rev head))
         else head)"

definition path_join :: "string \<Rightarrow> string \<Rightarrow> string" where
  "path_join a b =
     (if take 1 b = ''/'' then b
      else if a = [] \<or> last a = CHR ''/'' then a @ b
      else a @ ''/'' @ b)"

section \<open>Running external commands\<close>

text \<open>
  What a command that exits with status 0 leaves behind, as far as the script observes it
  (\<^verbatim>\<open>os.path.ismount\<close> and \<^verbatim>\<open>os.stat\<close>): \<^verbatim>\<open>umount\<close> and \<^verbatim>\<open>mount\<close> change the
  mounted directories, \<^verbatim>\<open>lvremove\<close> and \<^verbatim>\<open>lvcreate\<close> the block devices. This is the
  documented behaviour of these tools, not code of the script. A command that fails
  changes nothing.
\<close>

definition effect :: "env \<Rightarrow> string list \<Rightarrow> world \<Rightarrow> world" where
  "effect E cmd w =
     (if length cmd = 2 \<and> take 1 cmd = [''umount'']
        then w\<lparr>mounted := removeAll (cmd ! 1) (mounted w)\<rparr>
      else if length cmd = 5 \<and> take 3 cmd = [''mount'', ''-o'', ''ro'']
        then w\<lparr>mounted := (cmd ! 4) # mounted w\<rparr>
      else if 3 \<le> length cmd \<and> take 2 cmd = [''lvremove'', ''--force'']
        then w\<lparr>blkdevs := removeAll (cmd ! 2) (blkdevs w)\<rparr>
      else if 9 \<le> length cmd \<and> take 1 cmd = [''lvcreate'']
        then (case lvs_vg_lv E (cmd ! 8) of
                Inr (Some (vg # _)) \<Rightarrow> w\<lparr>blkdevs := (''/dev/'' @ vg @ ''/'' @ cmd ! 7) # blkdevs w\<rparr>
              | _ \<Rightarrow> w)
      else w)"

text \<open>
  \<^verbatim>\<open>GlobalLogger.check_call\<close>: the command is started and recorded; only
  \<^verbatim>\<open>CalledProcessError\<close> is caught and becomes \<^verbatim>\<open>False\<close>.
\<close>

definition check_call :: "env \<Rightarrow> string list \<Rightarrow> bool io" where
  "check_call E cmd w =
     (let w' = w\<lparr>trace := trace w @ [cmd]\<rparr>
      in case run E (length (trace w)) cmd of
           Exit0 \<Rightarrow> (Inr True, effect E cmd w')
         | ExitFail \<Rightarrow> (Inr False, w')
         | NoSpawn e \<Rightarrow> (Inl (OSError e), w'))"

section \<open>The class Bup\<close>

definition Bup_init :: "env \<Rightarrow> string option \<Rightarrow> bool io" where
  "Bup_init E remote_rep =
     check_call E ([''bup'', ''init''] @ (if truthy remote_rep then [''-r'', the remote_rep] else []))"

definition Bup_clear_index :: "env \<Rightarrow> bool io" where
  "Bup_clear_index E = check_call E [''bup'', ''index'', ''--clear'']"

text \<open>The first lines of \<^verbatim>\<open>Bup.fsck\<close>: the base command. With a remote repository,
  \<^verbatim>\<open>addr, path = remote_rep.split(":")\<close> raises \<^verbatim>\<open>ValueError\<close> unless the address
  has exactly one colon.\<close>

definition fsck_base_cmd :: "int \<Rightarrow> string option \<Rightarrow> exn + string list" where
  "fsck_base_cmd v remote_rep =
     (let verb = (if v \<ge> 3 then [''--verbose''] else [])
      in if truthy remote_rep
         then (case split_on CHR '':'' (the remote_rep) of
                 [addr, p] \<Rightarrow> Inr ([''ssh'', addr, ''bup'', ''-d'', p, ''fsck''] @ verb)
               | _ \<Rightarrow> Inl ValueError)
         else Inr ([''bup'', ''fsck''] @ verb))"

definition Bup_fsck :: "env \<Rightarrow> int \<Rightarrow> string option \<Rightarrow> bool \<Rightarrow> bool \<Rightarrow> bool io" where
  "Bup_fsck E v remote_rep par rep =
     bindE (liftE (fsck_base_cmd v remote_rep)) (\<lambda>base_cmd.
       if par then
         bindE (check_call E (base_cmd @ [''--par2-ok''])) (\<lambda>ok.
           if \<not> ok then returnE False
           else check_call E (base_cmd @ [''--generate'']))
       else if rep then check_call E (base_cmd @ [''--repair''])
       else check_call E (base_cmd @ [''--quick'']))"

definition index_cmd ::
  "int \<Rightarrow> string \<Rightarrow> string list \<Rightarrow> string list \<Rightarrow> string list \<Rightarrow> string list \<Rightarrow> bool \<Rightarrow> string list" where
  "index_cmd v p excludes excludes_rx excludes_from excludes_rx_from one_file_system =
     [''bup'', ''index'']
     @ (if v \<ge> 3 then [''--verbose''] else [])
     @ map (\<lambda>ex. ''--exclude='' @ ex) excludes
     @ map (\<lambda>ex. ''--exclude-rx='' @ ex) excludes_rx
     @ map (\<lambda>ex. ''--exclude-from='' @ ex) excludes_from
     @ map (\<lambda>ex. ''--exclude-rx-from='' @ ex) excludes_rx_from
     @ (if one_file_system then [''--one-file-system''] else [])
     @ [p]"

definition Bup_index ::
  "env \<Rightarrow> int \<Rightarrow> string \<Rightarrow> string list \<Rightarrow> string list \<Rightarrow> string list \<Rightarrow> string list \<Rightarrow> bool \<Rightarrow> bool io" where
  "Bup_index E v p excludes excludes_rx excludes_from excludes_rx_from one_file_system =
     check_call E (index_cmd v p excludes excludes_rx excludes_from excludes_rx_from one_file_system)"

text \<open>The command line \<^verbatim>\<open>Bup.save\<close> builds, in the order of its statements.\<close>

definition save_cmd :: "int \<Rightarrow> string list \<Rightarrow> string \<Rightarrow> string \<Rightarrow> string option \<Rightarrow> string list" where
  "save_cmd v ps branch graft remote_rep =
     [''bup'', ''save'']
     @ (if v \<le> 0 then [''--quiet''] else if v \<ge> 3 then [''--verbose''] else [])
     @ (if truthy remote_rep then [''-r'', the remote_rep] else [])
     @ [''--name'', branch]
     @ (if CHR ''='' \<in> set graft then [''--graft'', graft] else [''--strip-path'', graft])
     @ (if v \<ge> 2 then [''--tree'', ''--commit''] else [])
     @ ps"

definition Bup_save :: "env \<Rightarrow> int \<Rightarrow> string list \<Rightarrow> string \<Rightarrow> string \<Rightarrow> string option \<Rightarrow> bool io" where
  "Bup_save E v ps branch graft remote_rep = check_call E (save_cmd v ps branch graft remote_rep)"

section \<open>The Snapshot classes\<close>

text \<open>
  \<^verbatim>\<open>Snapshot.select\<close>: the first subclass whose lower-cased name contains the
  lower-cased argument. The subclasses are \<^verbatim>\<open>NoSnapshot\<close> and \<^verbatim>\<open>LvmSnapshot\<close>, in
  this order (\<^verbatim>\<open>VssSnapshot\<close> is defined under Cygwin only; the model is of every other
  platform).
\<close>

definition select :: "string \<Rightarrow> exn + snapshot_class" where
  "select nm =
     (if is_substr (lower nm) (lower ''NoSnapshot'') then Inr NoSnapshot
      else if is_substr (lower nm) (lower ''LvmSnapshot'') then Inr LvmSnapshot
      else Inl TypeError)"

text \<open>\<^verbatim>\<open>Snapshot.__init__\<close>, called as \<^verbatim>\<open>process\<close> calls it.\<close>

definition Snapshot_init :: "snapshot_class \<Rightarrow> string \<Rightarrow> string \<Rightarrow> int \<Rightarrow> string \<Rightarrow> Snapshot" where
  "Snapshot_init c p sz v mp =
     \<lparr>cls = c, src_path = p, path = p, snap_size = sz, snap_verbose = v,
      mountpattern = mp, exists = False, vg_lv = None\<rparr>"

text \<open>\<^verbatim>\<open>snapname\<close>, \<^verbatim>\<open>mountpoint\<close> and \<^verbatim>\<open>device\<close> of \<^verbatim>\<open>LvmSnapshot\<close>:
  subscripting \<^verbatim>\<open>None\<close> raises \<^verbatim>\<open>TypeError\<close>, a short tuple \<^verbatim>\<open>IndexError\<close>.\<close>

definition snapname :: "Snapshot \<Rightarrow> exn + string" where
  "snapname s =
     (case vg_lv s of
        None \<Rightarrow> Inl TypeError
      | Some t \<Rightarrow> if length t < 2 then Inl IndexError else Inr (''snap'' @ t ! 1))"

definition LvmSnapshot_mountpoint :: "env \<Rightarrow> Snapshot \<Rightarrow> exn + string" where
  "LvmSnapshot_mountpoint E s = format_mount E (mountpattern s) (vg_lv s)"

definition device :: "Snapshot \<Rightarrow> exn + string" where
  "device s =
     (case vg_lv s of
        None \<Rightarrow> Inl TypeError
      | Some t \<Rightarrow>
          if t = [] then Inl IndexError
          else (case snapname s of
                  Inl e \<Rightarrow> Inl e
                | Inr sn \<Rightarrow> Inr (''/dev/'' @ t ! 0 @ ''/'' @ sn)))"

text \<open>The \<^verbatim>\<open>try: os.wait()\<close> block of \<^verbatim>\<open>cleanup\<close>: \<^verbatim>\<open>ECHILD\<close> is passed over,
  any other \<^verbatim>\<open>OSError\<close> is raised again.\<close>

definition os_wait :: "env \<Rightarrow> unit io" where
  "os_wait E w =
     (let w' = w\<lparr>nwait := Suc (nwait w)\<rparr>
      in case wait_err E (nwait w) of
           None \<Rightarrow> (Inr (), w')
         | Some e \<Rightarrow> if e = ECHILD then (Inr (), w') else (Inl (OSError e), w'))"

text \<open>The flags both \<^verbatim>\<open>lvcreate\<close> and \<^verbatim>\<open>lvremove\<close> get from \<^verbatim>\<open>self.verbose\<close>.\<close>

definition lvm_flags :: "int \<Rightarrow> string list" where
  "lvm_flags v = (if v \<le> 0 then [''--quiet''] else []) @ (if v \<ge> 3 then [''--verbose''] else [])"

text \<open>
  \<^verbatim>\<open>LvmSnapshot.cleanup(force)\<close>. \<^verbatim>\<open>os.removedirs\<close> runs inside
  \<^verbatim>\<open>try: ... except: pass\<close> and directories are not part of the state, so it leaves no
  trace here. The last \<^verbatim>\<open>try\<close> catches \<^verbatim>\<open>OSError\<close> of \<^verbatim>\<open>os.stat\<close> (no such
  device) and of starting \<^verbatim>\<open>lvremove\<close>.
\<close>

definition LvmSnapshot_cleanup :: "env \<Rightarrow> bool \<Rightarrow> unit io" where
  "LvmSnapshot_cleanup E force w =
     (if \<not> exists (snap w) \<and> \<not> force then (Inr (), w)
      else
        (let w0 = w\<lparr>snap := (snap w)\<lparr>exists := False\<rparr>\<rparr>
         in bindE (liftE (LvmSnapshot_mountpoint E (snap w0))) (\<lambda>m.
            bindE (os_wait E) (\<lambda>_.
            bindE (\<lambda>w1. if m \<in> set (mounted w1)
                         then bindE (check_call E [''umount'', m]) (\<lambda>_. returnE ()) w1
                         else returnE () w1) (\<lambda>_.
            bindE (liftE (device (snap w0))) (\<lambda>dev.
            (\<lambda>w2. if dev \<in> set (blkdevs w2)
                   then (case check_call E ([''lvremove'', ''--force'', dev] @ lvm_flags (snap_verbose (snap w0))) w2 of
                           (Inl (OSError e), w3) \<Rightarrow> (Inr (), w3)
                         | (Inl e, w3) \<Rightarrow> (Inl e, w3)
                         | (Inr _, w3) \<Rightarrow> (Inr (), w3))
                   else (Inr (), w2)))))) w0))"

text \<open>\<^verbatim>\<open>Snapshot.cleanup\<close> is \<^verbatim>\<open>pass\<close>; \<^verbatim>\<open>NoSnapshot\<close> inherits it.\<close>

definition Snapshot_cleanup :: "env \<Rightarrow> unit io" where
  "Snapshot_cleanup E w =
     (case cls (snap w) of
        NoSnapshot \<Rightarrow> (Inr (), w)
      | LvmSnapshot \<Rightarrow> LvmSnapshot_cleanup E False w)"

text \<open>\<^verbatim>\<open>Snapshot.__exit__(t, e, tb)\<close>: clean up, clear \<^verbatim>\<open>exists\<close>, return
  \<^verbatim>\<open>t is None\<close>.\<close>

definition Snapshot_exit :: "env \<Rightarrow> exn option \<Rightarrow> bool io" where
  "Snapshot_exit E t =
     bindE (Snapshot_cleanup E) (\<lambda>_ w. (Inr (t = None), w\<lparr>snap := (snap w)\<lparr>exists := False\<rparr>\<rparr>))"

text \<open>\<^verbatim>\<open>make_dirs_helper\<close>: \<^verbatim>\<open>True\<close> if the directory was created, \<^verbatim>\<open>False\<close> if
  it was there, \<^verbatim>\<open>OSError\<close> otherwise.\<close>

definition make_dirs_helper :: "env \<Rightarrow> string \<Rightarrow> bool io" where
  "make_dirs_helper E p =
     (case makedirs_err E p of
        None \<Rightarrow> returnE True
      | Some e \<Rightarrow> if e \<noteq> EEXIST \<or> \<not> isdir E p then raiseE (OSError e) else returnE False)"

text \<open>The loop of \<^verbatim>\<open>find_mountpoint\<close>, over the mounted directories.\<close>

function find_mountpoint_loop :: "string list \<Rightarrow> string \<Rightarrow> string option" where
  "find_mountpoint_loop ms p =
     (if p \<in> set ms then Some p
      else if dirname p = p then None
      else find_mountpoint_loop ms (dirname p))"
  by pat_completeness auto
termination
proof (relation "measure (\<lambda>(ms, p). length p)")
  show "wf (measure (\<lambda>(ms, p). length p))" by simp
next
  fix ms :: "string list" and p :: string
  assume ne: "dirname p \<noteq> p"
  define h where "h = rev (dropWhile (\<lambda>c. c \<noteq> CHR ''/'') (rev p))"
  have hp: "\<exists>t. p = h @ t"
  proof -
    have "rev p = takeWhile (\<lambda>c. c \<noteq> CHR ''/'') (rev p) @ dropWhile (\<lambda>c. c \<noteq> CHR ''/'') (rev p)"
      by simp
    then have "p = rev (dropWhile (\<lambda>c. c \<noteq> CHR ''/'') (rev p)) @ rev (takeWhile (\<lambda>c. c \<noteq> CHR ''/'') (rev p))"
      by (metis rev_append rev_rev_ident)
    then show ?thesis unfolding h_def by blast
  qed
  have dh: "\<exists>t. h = dirname p @ t"
  proof (cases "h \<noteq> [] \<and> \<not> list_all (\<lambda>c. c = CHR ''/'') h")
    case True
    then have d: "dirname p = rev (dropWhile (\<lambda>c. c = CHR ''/'') (rev h))"
      by (simp add: dirname_def h_def Let_def)
    have "rev h = takeWhile (\<lambda>c. c = CHR ''/'') (rev h) @ dropWhile (\<lambda>c. c = CHR ''/'') (rev h)"
      by simp
    then have "h = rev (dropWhile (\<lambda>c. c = CHR ''/'') (rev h)) @ rev (takeWhile (\<lambda>c. c = CHR ''/'') (rev h))"
      by (metis rev_append rev_rev_ident)
    then show ?thesis using d by metis
  next
    case False
    then have "dirname p = h" by (auto simp add: dirname_def h_def Let_def)
    then show ?thesis by simp
  qed
  from hp dh obtain t where t: "p = dirname p @ t" by (metis append.assoc)
  with ne have "t \<noteq> []" by auto
  with t have "length (dirname p) < length p"
    by (metis length_append length_greater_0_conv less_add_same_cancel1)
  then show "((ms, dirname p), (ms, p)) \<in> measure (\<lambda>(ms, p). length p)" by simp
qed

definition find_mountpoint :: "env \<Rightarrow> string option io" where
  "find_mountpoint E w = (Inr (find_mountpoint_loop (mounted w) (realpath E (path (snap w)))), w)"

text \<open>
  \<^verbatim>\<open>LvmSnapshot.__enter__\<close> after a device and its volume group were found: the forced
  cleanup, \<^verbatim>\<open>lvcreate\<close>, the mount point, \<^verbatim>\<open>mount\<close>.
\<close>

definition LvmSnapshot_create :: "env \<Rightarrow> string \<Rightarrow> string \<Rightarrow> unit io" where
  "LvmSnapshot_create E mountpt dev =
     bindE (LvmSnapshot_cleanup E True) (\<lambda>_.
     bindE (\<lambda>w. liftE (snapname (snap w)) w) (\<lambda>sn.
     bindE (\<lambda>w. check_call E
             ([''lvcreate'', ''--size'', snap_size (snap w), ''--snapshot'', ''--permission'', ''r'',
               ''--name'', sn, dev] @ lvm_flags (snap_verbose (snap w))) w) (\<lambda>created.
       if created then
         bindE (\<lambda>w. liftE (LvmSnapshot_mountpoint E (snap w)) w) (\<lambda>m.
         bindE (make_dirs_helper E m) (\<lambda>_.
         bindE (\<lambda>w. (Inr (), w\<lparr>snap := (snap w)\<lparr>exists := True\<rparr>\<rparr>)) (\<lambda>_.
         bindE (\<lambda>w. liftE (device (snap w)) w) (\<lambda>d.
         bindE (check_call E [''mount'', ''-o'', ''ro'', d, m]) (\<lambda>ok.
           if ok then
             (\<lambda>w. (Inr (), w\<lparr>snap := (snap w)\<lparr>path := path_join m (relpath E (path (snap w)) mountpt)\<rparr>\<rparr>))
           else LvmSnapshot_cleanup E False)))))
       else
         (\<lambda>w. if map_option length (vg_lv (snap w)) = Some 2 then (Inr (), w) else (Inl TypeError, w)))))"

text \<open>\<^verbatim>\<open>LvmSnapshot.__enter__\<close>. Every failure to find what it needs is a warning and
  leaves \<^verbatim>\<open>self.path\<close> as it was.\<close>

definition LvmSnapshot_enter :: "env \<Rightarrow> unit io" where
  "LvmSnapshot_enter E =
     bindE (\<lambda>w. (Inr (), w\<lparr>snap := (snap w)\<lparr>vg_lv := None\<rparr>\<rparr>)) (\<lambda>_.
     bindE (find_mountpoint E) (\<lambda>mountpt.
       if truthy mountpt then
         bindE (liftE (mount_device E (the mountpt))) (\<lambda>dev.
         bindE (if truthy dev
                then bindE (liftE (lvs_vg_lv E (the dev))) (\<lambda>t w. (Inr (), w\<lparr>snap := (snap w)\<lparr>vg_lv := t\<rparr>\<rparr>))
                else returnE ()) (\<lambda>_ w.
           if truthy dev \<and> vg_lv (snap w) \<noteq> None \<and> vg_lv (snap w) \<noteq> Some []
           then LvmSnapshot_create E (the mountpt) (the dev) w
           else (Inr (), w)))
       else returnE ()))"

text \<open>\<^verbatim>\<open>Snapshot.__enter__\<close> returns \<^verbatim>\<open>self\<close>; \<^verbatim>\<open>LvmSnapshot\<close> overrides it.\<close>

definition Snapshot_enter :: "env \<Rightarrow> unit io" where
  "Snapshot_enter E w =
     (case cls (snap w) of
        NoSnapshot \<Rightarrow> (Inr (), w)
      | LvmSnapshot \<Rightarrow> LvmSnapshot_enter E w)"

section \<open>The class Pidfile\<close>

text \<open>
  The lock file is the one file of the state. \<^verbatim>\<open>os.open\<close> with
  \<^verbatim>\<open>O_CREAT | O_WRONLY | O_EXCL\<close> fails with \<^verbatim>\<open>EEXIST\<close> if the file is there and
  creates it empty otherwise, if the directory permits; \<^verbatim>\<open>os.remove\<close> fails with
  \<^verbatim>\<open>ENOENT\<close> if there is no file.
\<close>

definition os_open_excl :: "env \<Rightarrow> nat io" where
  "os_open_excl E w =
     (case lockfile w of
        Some _ \<Rightarrow> (Inl (OSError EEXIST), w)
      | None \<Rightarrow>
          (case dir_err E of
             Some e \<Rightarrow> (Inl (OSError e), w)
           | None \<Rightarrow> (Inr (open_fd E), w\<lparr>lockfile := Some []\<rparr>)))"

definition os_remove :: "env \<Rightarrow> unit io" where
  "os_remove E w =
     (case lockfile w of
        None \<Rightarrow> (Inl (OSError ENOENT), w)
      | Some _ \<Rightarrow>
          (case dir_err E of
             Some e \<Rightarrow> (Inl (OSError e), w)
           | None \<Rightarrow> (Inr (), w\<lparr>lockfile := None\<rparr>)))"

text \<open>\<^verbatim>\<open>open(self.pidfile, "r")\<close>: the bytes of the file, if it can be opened.\<close>

definition open_pidfile :: "env \<Rightarrow> string io" where
  "open_pidfile E w =
     (case lockfile w of
        None \<Rightarrow> (Inl (OSError ENOENT), w)
      | Some s \<Rightarrow>
          (case read_err E of
             Some e \<Rightarrow> (Inl (OSError e), w)
           | None \<Rightarrow> (Inr s, w)))"

text \<open>
  \<^verbatim>\<open>Pidfile._check\<close>. The result \<open>None\<close> stands for \<^verbatim>\<open>False\<close> and for the
  \<^verbatim>\<open>None\<close> of falling off the end of the function (an errno that is neither
  \<^verbatim>\<open>ESRCH\<close> nor \<^verbatim>\<open>EPERM\<close>). \<^verbatim>\<open>f.read()\<close> and \<^verbatim>\<open>int(pidstr)\<close> stand in one
  \<^verbatim>\<open>try\<close> block: when \<^verbatim>\<open>f.read()\<close> raises \<^verbatim>\<open>UnicodeDecodeError\<close> (a
  \<^verbatim>\<open>ValueError\<close>), the handler formats \<^verbatim>\<open>pidstr\<close>, which was never bound, and
  raises \<^verbatim>\<open>UnboundLocalError\<close>.
\<close>

definition Pidfile_check :: "env \<Rightarrow> int option io" where
  "Pidfile_check E =
     bindE (open_pidfile E) (\<lambda>content.
       case read_text E content of
         None \<Rightarrow> raiseE UnboundLocalError
       | Some pidstr \<Rightarrow>
           (case int_of_text E pidstr of
              None \<Rightarrow> returnE None
            | Some pid \<Rightarrow>
                if proc_entry E pid then returnE (Some pid)
                else (case kill0 E pid of
                        Delivered \<Rightarrow> returnE (Some pid)
                      | KillError e \<Rightarrow>
                          if e = ESRCH then returnE None
                          else if e = EPERM then returnE (Some pid)
                          else returnE None
                      | KillOverflow \<Rightarrow> raiseE OverflowError)))"

text \<open>The last two statements of \<^verbatim>\<open>create\<close>, \<^verbatim>\<open>os.write(self.pidfd, ...)\<close> and
  \<^verbatim>\<open>os.close(self.pidfd)\<close>, after \<^verbatim>\<open>os.open\<close> has returned \<open>fd\<close>.\<close>

definition write_pid :: "env \<Rightarrow> nat \<Rightarrow> unit io" where
  "write_pid E fd w = (Inr (), w\<lparr>pidfd := Fd fd, lockfile := Some (str_nat (getpid E))\<rparr>)"

text \<open>
  The same two statements when the inner \<^verbatim>\<open>except OSError\<close> has swallowed an error
  other than \<^verbatim>\<open>EACCES\<close>: \<^verbatim>\<open>self.pidfd\<close> was not assigned by this call, so it is
  missing, \<^verbatim>\<open>None\<close>, or a descriptor that was closed before.
\<close>

definition write_unopened :: "unit io" where
  "write_unopened w =
     (case pidfd w of
        Unset \<Rightarrow> (Inl AttributeError, w)
      | IsNone \<Rightarrow> (Inl TypeError, w)
      | Fd n \<Rightarrow> (Inl (OSError EOTHER), w))"

text \<open>The inner handler of \<^verbatim>\<open>create\<close>: \<^verbatim>\<open>except OSError as e: if e.errno ==
  errno.EACCES: with open(self.pidfile, "r") as f: raise ProcessRunningException(self.pidfile,
  f.read())\<close>.\<close>

definition create_denied :: "env \<Rightarrow> string \<Rightarrow> errno \<Rightarrow> unit io" where
  "create_denied E pf e =
     (if e = EACCES
      then bindE (open_pidfile E) (\<lambda>content.
             case read_text E content of
               None \<Rightarrow> raiseE UnicodeDecodeError
             | Some t \<Rightarrow> raiseE (ProcessRunningException pf (PidRaw t)))
      else write_unopened)"

definition Pidfile_create :: "env \<Rightarrow> string \<Rightarrow> unit io" where
  "Pidfile_create E pf w =
     (case os_open_excl E w of
        (Inr fd, w1) \<Rightarrow> write_pid E fd w1
      | (Inl (OSError e), w1) \<Rightarrow>
          if e = EEXIST then
            (case Pidfile_check E w1 of
               (Inl x, w2) \<Rightarrow> (Inl x, w2)
             | (Inr pid, w2) \<Rightarrow>
                 if pid \<noteq> None \<and> pid \<noteq> Some 0
                 then (Inl (ProcessRunningException pf (PidInt (the pid))), w2\<lparr>pidfd := IsNone\<rparr>)
                 else
                   (case os_remove E w2 of
                      (Inl (OSError e2), w3) \<Rightarrow> create_denied E pf e2 w3
                    | (Inl x, w3) \<Rightarrow> (Inl x, w3)
                    | (Inr _, w3) \<Rightarrow>
                        (case os_open_excl E w3 of
                           (Inr fd, w4) \<Rightarrow> write_pid E fd w4
                         | (Inl (OSError e2), w4) \<Rightarrow> create_denied E pf e2 w4
                         | (Inl x, w4) \<Rightarrow> (Inl x, w4))))
          else (Inl (OSError e), w1)
      | (Inl x, w1) \<Rightarrow> (Inl x, w1))"

definition Pidfile_remove :: "env \<Rightarrow> unit io" where
  "Pidfile_remove E = os_remove E"

text \<open>\<^verbatim>\<open>Pidfile.__exit__(t, e, tb)\<close>; \<^verbatim>\<open>if self.pidfd:\<close> is the truth value of
  the attribute.\<close>

definition Pidfile_exit :: "env \<Rightarrow> exn option \<Rightarrow> bool io" where
  "Pidfile_exit E t w =
     (case t of
        None \<Rightarrow> bindE (Pidfile_remove E) (\<lambda>_. returnE True) w
      | Some (ProcessRunningException _ _) \<Rightarrow> (Inr False, w)
      | Some _ \<Rightarrow>
          (case pidfd w of
             Unset \<Rightarrow> (Inl AttributeError, w)
           | IsNone \<Rightarrow> (Inr False, w)
           | Fd n \<Rightarrow>
               if n \<noteq> 0 then bindE (Pidfile_remove E) (\<lambda>_. returnE False) w
               else (Inr False, w)))"

text \<open>\<^verbatim>\<open>with Pidfile(path): body\<close>: a new object has no attribute \<^verbatim>\<open>pidfd\<close>.\<close>

definition with_Pidfile :: "env \<Rightarrow> string \<Rightarrow> 'a io \<Rightarrow> 'a option io" where
  "with_Pidfile E pf body w =
     with_stmt (Pidfile_create E pf) (Pidfile_exit E) body (w\<lparr>pidfd := Unset\<rparr>)"

section \<open>The processing loop\<close>

text \<open>The branch name computed in \<^verbatim>\<open>process\<close>.\<close>

definition branch_of :: "env \<Rightarrow> args \<Rightarrow> string \<Rightarrow> string" where
  "branch_of E a src =
     (if truthy (branch_name a) then the (branch_name a)
      else (if truthy (name a) then the (name a) else hostname E) @ ''-'' @ replace_slash src)"

text \<open>The statistics statements (\<^verbatim>\<open>if args.stats: ...\<close>). The collaborator
  \<^verbatim>\<open>BupCronMetaData\<close> runs its own subprocesses; only whether it raises is kept.\<close>

definition stats_step :: "env \<Rightarrow> args \<Rightarrow> unit io" where
  "stats_step E a w =
     (if stats a
      then (case stats_err E (length (trace w)) of None \<Rightarrow> (Inr (), w) | Some e \<Rightarrow> (Inl e, w))
      else (Inr (), w))"

text \<open>\<^verbatim>\<open>if args.check and not Bup.fsck(args.remote, repair=args.repair): if not
  Bup.fsck(args.remote): success = False\<close>.\<close>

definition process_check :: "env \<Rightarrow> args \<Rightarrow> bool \<Rightarrow> bool io" where
  "process_check E a success =
     (if check a then
        bindE (Bup_fsck E (verbose a) (remote a) False (repair a)) (\<lambda>ok.
          if \<not> ok then
            bindE (Bup_fsck E (verbose a) (remote a) False False) (\<lambda>ok2.
              if \<not> ok2 then returnE False else returnE success)
          else returnE success)
      else returnE success)"

text \<open>\<^verbatim>\<open>if args.parity and not Bup.fsck(args.remote, parity=True): warning\<close>.\<close>

definition process_parity :: "env \<Rightarrow> args \<Rightarrow> unit io" where
  "process_parity E a =
     (if parity a then bindE (Bup_fsck E (verbose a) (remote a) True False) (\<lambda>_. returnE ())
      else returnE ())"

text \<open>The body of the \<^verbatim>\<open>with\<close> statement in \<^verbatim>\<open>process\<close>; its value is the variable
  \<^verbatim>\<open>success\<close> afterwards. A failed index sets it to \<^verbatim>\<open>False\<close> and leaves the body
  (\<^verbatim>\<open>continue\<close>).\<close>

definition process_body :: "env \<Rightarrow> args \<Rightarrow> bool \<Rightarrow> bool io" where
  "process_body E a success =
     bindE (\<lambda>w. Bup_index E (verbose a) (path (snap w)) (exclude a) (exclude_rx a)
                  (exclude_from a) (exclude_rx_from a) True w) (\<lambda>indexed.
       if \<not> indexed then returnE False
       else
         bindE (\<lambda>w. returnE (branch_of E a (src_path (snap w))) w) (\<lambda>branch.
         bindE (\<lambda>w. Bup_save E (verbose a) [path (snap w)] branch (path (snap w)) (remote a) w) (\<lambda>saved.
         bindE (process_check E a (if \<not> saved then False else success)) (\<lambda>success'.
         bindE (process_parity E a) (\<lambda>_.
         bindE (stats_step E a) (\<lambda>_. returnE success'))))))"

text \<open>One iteration of the loop: select the class, construct the object, run the body
  inside \<^verbatim>\<open>with\<close>.\<close>

definition process_path :: "env \<Rightarrow> args \<Rightarrow> string \<Rightarrow> bool \<Rightarrow> bool io" where
  "process_path E a p success =
     bindE (liftE (select (snapshot a))) (\<lambda>c.
     bindE (\<lambda>w. (Inr (), w\<lparr>snap := Snapshot_init c p (size_opt a) (verbose a) (mountpoint a)\<rparr>)) (\<lambda>_.
     bindE (with_stmt (Snapshot_enter E) (Snapshot_exit E) (process_body E a success)) (\<lambda>r.
       returnE (case r of Some s \<Rightarrow> s | None \<Rightarrow> success))))"

fun process_loop :: "env \<Rightarrow> args \<Rightarrow> string list \<Rightarrow> bool \<Rightarrow> bool io" where
  "process_loop E a [] success w = (Inr success, w)"
| "process_loop E a (p # ps) success w =
     (case process_path E a p success w of
        (Inl e, w') \<Rightarrow> (Inl e, w')
      | (Inr success', w') \<Rightarrow> process_loop E a ps success' w')"

definition process :: "env \<Rightarrow> args \<Rightarrow> bool io" where
  "process E a =
     bindE (stats_step E a) (\<lambda>_.
     bindE (process_loop E a (paths a) True) (\<lambda>success.
     bindE (stats_step E a) (\<lambda>_. returnE success)))"

text \<open>
  The success flag of one path: what the loop body leaves in \<^verbatim>\<open>success\<close> for that
  path when the variable was true before, in the state in which the loop reaches the
  path. \<open>path_flags\<close> lists the flags of the paths the loop gets to.
\<close>

fun path_flags :: "env \<Rightarrow> args \<Rightarrow> string list \<Rightarrow> world \<Rightarrow> bool list" where
  "path_flags E a [] w = []"
| "path_flags E a (p # ps) w =
     (case process_path E a p True w of
        (Inl e, w') \<Rightarrow> []
      | (Inr ok, w') \<Rightarrow> ok # path_flags E a ps w')"

text \<open>Conjoining a flag with the result of a computation.\<close>

definition and_flag :: "bool \<Rightarrow> (exn + bool) \<times> world \<Rightarrow> (exn + bool) \<times> world" where
  "and_flag s r = (case r of (Inl e, w') \<Rightarrow> (Inl e, w') | (Inr ok, w') \<Rightarrow> (Inr (s \<and> ok), w'))"

section \<open>main\<close>

text \<open>\<^verbatim>\<open>bail\<close> logs and calls \<^verbatim>\<open>sys.exit(status)\<close>, which raises
  \<^verbatim>\<open>SystemExit\<close>.\<close>

definition bail :: "int \<Rightarrow> 'a io" where
  "bail status = raiseE (SystemExit status)"

text \<open>The \<^verbatim>\<open>try\<close> block of \<^verbatim>\<open>main\<close>. \<^verbatim>\<open>logging.warninging\<close> is not an attribute
  of the logging module: reaching it raises \<^verbatim>\<open>AttributeError\<close>. The result \<open>None\<close>
  says that \<^verbatim>\<open>success\<close> was not assigned, so reading it after the \<^verbatim>\<open>try\<close>
  statement raises \<^verbatim>\<open>NameError\<close>.\<close>

definition main_try :: "env \<Rightarrow> args \<Rightarrow> bool option io" where
  "main_try E a =
     bindE (if \<not> repo_exists E
            then bindE (Bup_init E (remote a)) (\<lambda>ok. if \<not> ok then bail 3 else returnE True)
            else returnE False) (\<lambda>initialised.
     with_Pidfile E (pidfile a)
       (bindE (if clear a \<and> \<not> initialised
               then bindE (Bup_clear_index E) (\<lambda>ok. if \<not> ok then raiseE AttributeError else returnE ())
               else returnE ()) (\<lambda>_.
        process E a)))"

text \<open>
  How a run of \<^verbatim>\<open>main()\<close> ends: it returns, \<^verbatim>\<open>SystemExit\<close> leaves it, or another
  exception does. \<^verbatim>\<open>except SystemExit: return\<close> ends it by returning;
  \<^verbatim>\<open>except: raise\<close> raises the exception again, so the statements after \<^verbatim>\<open>raise\<close>
  are never reached. After the \<^verbatim>\<open>try\<close> statement, \<^verbatim>\<open>bail(0)\<close> or \<^verbatim>\<open>bail(1)\<close>.
\<close>

datatype outcome = Returned | Exited int | Uncaught exn

definition main :: "env \<Rightarrow> args \<Rightarrow> world \<Rightarrow> outcome \<times> world" where
  "main E a w =
     (case main_try E a w of
        (Inl (SystemExit n), w') \<Rightarrow> (Returned, w')
      | (Inl e, w') \<Rightarrow> (Uncaught e, w')
      | (Inr None, w') \<Rightarrow> (Uncaught NameError, w')
      | (Inr (Some success), w') \<Rightarrow> (Exited (if success then 0 else 1), w'))"

text \<open>The exit status of the interpreter: 0 when the script ends, the argument of
  \<^verbatim>\<open>sys.exit\<close>, 1 after an exception that nothing caught.\<close>

definition exit_status :: "outcome \<Rightarrow> int" where
  "exit_status r = (case r of Returned \<Rightarrow> 0 | Exited n \<Rightarrow> n | Uncaught _ \<Rightarrow> 1)"

section \<open>A concrete machine for the examples\<close>

text \<open>
  A host named \<open>myhost\<close> where every command succeeds, the repository exists, no lock
  file is there, no process is alive, \<^verbatim>\<open>find_device\<close> finds no device, bytes
  that are not ASCII do not decode; and the
  command line \<^verbatim>\<open>bup-cron --name myhost /home\<close> with the defaults of the parser.
  \<open>format_mount\<close> covers the default pattern \<^verbatim>\<open>/media/bup/%s-%s\<close>.
\<close>

definition env0 :: env where
  "env0 =
     \<lparr>run = (\<lambda>n cmd. Exit0), hostname = ''myhost'', getpid = 4242, repo_exists = True,
      proc_entry = (\<lambda>pid. False), kill0 = (\<lambda>pid. KillError ESRCH),
      dir_err = None, read_err = None, open_fd = 3,
      decode_other = (\<lambda>s. None), int_other = (\<lambda>t. None),
      wait_err = (\<lambda>n. Some ECHILD),
      mount_device = (\<lambda>m. Inr None), lvs_vg_lv = (\<lambda>d. Inr None),
      format_mount = (\<lambda>pat t. case t of Some [vg, lv] \<Rightarrow> Inr (''/media/bup/'' @ vg @ ''-'' @ lv)
                                      | _ \<Rightarrow> Inl TypeError),
      relpath = (\<lambda>p start. drop (Suc (length start)) p), realpath = (\<lambda>p. p),
      makedirs_err = (\<lambda>p. None), isdir = (\<lambda>p. True), stats_err = (\<lambda>n. None)\<rparr>"

definition world0 :: world where
  "world0 =
     \<lparr>trace = [], lockfile = None, pidfd = Unset, mounted = [''/''], blkdevs = [], nwait = 0,
      snap = Snapshot_init NoSnapshot [] [] 0 []\<rparr>"

definition args0 :: args where
  "args0 =
     \<lparr>paths = [''/home''], name = Some ''myhost'', branch_name = None, remote = None,
      exclude = [], exclude_rx = [], exclude_from = [], exclude_rx_from = [],
      clear = False, parity = False, check = False, repair = False,
      snapshot = ''NO'', size_opt = ''1GB'', mountpoint = ''/media/bup/%s-%s'',
      stats = False, verbose = 0, debug = False, pidfile = ''/bup/.bup-cron.pid''\<rparr>"

text \<open>Machines on which the commands numbered \<open>ns\<close> (in the order they are started,
  from 0) exit with a failure status, and command lines that enable verification.\<close>

definition env_failing :: "nat list \<Rightarrow> env" where
  "env_failing ns = env0\<lparr>run := (\<lambda>n cmd. if n \<in> set ns then ExitFail else Exit0)\<rparr>"

definition args_check :: args where
  "args_check = args0\<lparr>check := True\<rparr>"

definition args_repair :: args where
  "args_repair = args0\<lparr>check := True, repair := True\<rparr>"

text \<open>A state in which an LVM snapshot of \<^verbatim>\<open>/home\<close> is mounted for the path
  \<^verbatim>\<open>/home/user\<close>.\<close>

definition world_lvm :: world where
  "world_lvm =
     world0\<lparr>mounted := [''/'', ''/home'', ''/media/bup/vg0-home''],
            blkdevs := [''/dev/vg0/home'', ''/dev/vg0/snaphome''],
            snap := \<lparr>cls = LvmSnapshot, src_path = ''/home/user'',
                      path = ''/media/bup/vg0-home/user'', snap_size = ''1GB'', snap_verbose = 0,
                      mountpattern = ''/media/bup/%s-%s'', exists = True,
                      vg_lv = Some [''vg0'', ''home'']\<rparr>\<rparr>"

text \<open>Two paths; and the command line \<^verbatim>\<open>--snapshot LVM /home/user /etc\<close> on a machine
  where \<^verbatim>\<open>/home\<close> is a mount point.\<close>

definition args_two :: args where
  "args_two = args0\<lparr>paths := [''/home'', ''/etc'']\<rparr>"



text \<open>Machines for the exit codes and the lock: \<^verbatim>\<open>bup init\<close> fails on a missing
  repository; the lock file's directory refuses new entries; the first free descriptor
  is 0 (the process was started with its standard input closed) and every command
  fails; the command line \<^verbatim>\<open>--clear\<close>.\<close>

definition env_init_fails :: env where
  "env_init_fails = env0\<lparr>repo_exists := False, run := (\<lambda>n cmd. ExitFail)\<rparr>"

definition env_lock_denied :: env where
  "env_lock_denied = env0\<lparr>dir_err := Some EPERM\<rparr>"

definition env_fd0 :: env where
  "env_fd0 = env0\<lparr>open_fd := 0, run := (\<lambda>n cmd. ExitFail)\<rparr>"

definition args_clear :: args where
  "args_clear = args0\<lparr>clear := True\<rparr>"




text \<open>A machine on which every command fails.\<close>

definition env_all_fail :: env where
  "env_all_fail = env0\<lparr>run := (\<lambda>n cmd. ExitFail)\<rparr>"

section \<open>Basic facts about the primitives\<close>

lemma check_call_trace: "trace (snd (check_call E cmd w)) = trace w @ [cmd]"
  by (simp add: check_call_def effect_def Let_def
           split: proc_result.splits sum.splits option.splits list.splits)

lemma bindE_liftE:
  "bindE (liftE (Inr x)) f = f x" "bindE (liftE (Inl e)) f w = (Inl e, w)"
  by (auto simp add: bindE_def liftE_def)

lemma bindE_step: "bindE (\<lambda>w. (Inr x, g w)) f w = f x (g w)"
  by (simp add: bindE_def)

lemma effect_frame:
  "trace (effect E cmd w) = trace w" "snap (effect E cmd w) = snap w"
  "lockfile (effect E cmd w) = lockfile w" "pidfd (effect E cmd w) = pidfd w"
  "nwait (effect E cmd w) = nwait w"
  by (simp_all add: effect_def split: sum.splits option.splits list.splits)

lemma check_call_frame:
  "snap (snd (check_call E cmd w)) = snap w"
  "lockfile (snd (check_call E cmd w)) = lockfile w"
  "pidfd (snd (check_call E cmd w)) = pidfd w"
  by (simp_all add: check_call_def effect_frame Let_def split: proc_result.splits)

lemma check_call_Exit0:
  "run E (length (trace w)) cmd = Exit0 \<Longrightarrow>
   check_call E cmd w = (Inr True, effect E cmd (w\<lparr>trace := trace w @ [cmd]\<rparr>))"
  by (simp add: check_call_def Let_def)

lemma check_call_ExitFail:
  "run E (length (trace w)) cmd = ExitFail \<Longrightarrow>
   check_call E cmd w = (Inr False, w\<lparr>trace := trace w @ [cmd]\<rparr>)"
  by (simp add: check_call_def Let_def)

lemma check_call_cases:
  "check_call E cmd w = (r, w') \<Longrightarrow>
   trace w' = trace w @ [cmd] \<and> snap w' = snap w \<and> lockfile w' = lockfile w \<and> pidfd w' = pidfd w
   \<and> (r = Inr True \<longleftrightarrow> run E (length (trace w)) cmd = Exit0)
   \<and> (r = Inr False \<longleftrightarrow> run E (length (trace w)) cmd = ExitFail)"
  by (auto simp add: check_call_def effect_frame Let_def split: proc_result.splits)

lemma prefix_bindE:
  assumes "\<And>w. prefix (trace w) (trace (snd (m w)))"
      and "\<And>x w. prefix (trace w) (trace (snd (f x w)))"
  shows "prefix (trace w) (trace (snd (bindE m f w)))"
proof (cases "m w")
  case (Pair r w1)
  show ?thesis
  proof (cases r)
    case (Inl e)
    with Pair assms(1)[of w] show ?thesis by (simp add: bindE_def)
  next
    case (Inr x)
    with Pair assms(1)[of w] assms(2)[of w1 x] show ?thesis
      by (auto simp add: bindE_def intro: prefix_order.trans)
  qed
qed

lemma prefix_check_call: "prefix (trace w) (trace (snd (check_call E cmd w)))"
  by (simp add: check_call_trace)

lemma prefix_returnE: "prefix (trace w) (trace (snd (returnE x w)))"
  by (simp add: returnE_def)

lemma prefix_liftE: "prefix (trace w) (trace (snd (liftE r w)))"
  by (simp add: liftE_def)

lemma prefix_Bup_fsck: "prefix (trace w) (trace (snd (Bup_fsck E v r par rep w)))"
  unfolding Bup_fsck_def
  by (intro prefix_bindE prefix_liftE) (auto intro!: prefix_bindE prefix_check_call prefix_returnE)

lemma prefix_process_check: "prefix (trace w) (trace (snd (process_check E a s w)))"
  unfolding process_check_def
  by (auto intro!: prefix_bindE prefix_Bup_fsck prefix_returnE)

lemma prefix_process_parity: "prefix (trace w) (trace (snd (process_parity E a w)))"
  unfolding process_parity_def
  by (auto intro!: prefix_bindE prefix_Bup_fsck prefix_returnE)

lemma prefix_stats_step: "prefix (trace w) (trace (snd (stats_step E a w)))"
  by (simp add: stats_step_def split: option.splits)

lemma prefix_after_save:
  "prefix (trace w)
     (trace (snd (bindE (process_check E a s) (\<lambda>success'.
                  bindE (process_parity E a) (\<lambda>_.
                  bindE (stats_step E a) (\<lambda>_. returnE success'))) w)))"
  by (intro prefix_bindE prefix_process_check prefix_process_parity prefix_stats_step prefix_returnE)

lemmas run_defs =
  main_def main_try_def bindE_def returnE_def raiseE_def liftE_def bail_def
  with_Pidfile_def with_stmt_def Pidfile_create_def os_open_excl_def write_pid_def
  Pidfile_exit_def Pidfile_remove_def os_remove_def
  process_def stats_step_def process_path_def select_def lower_def lower_char_def
  Snapshot_init_def Snapshot_enter_def Snapshot_exit_def Snapshot_cleanup_def
  process_body_def process_check_def process_parity_def
  Bup_init_def Bup_clear_index_def Bup_index_def index_cmd_def Bup_save_def save_cmd_def
  Bup_fsck_def fsck_base_cmd_def check_call_def effect_def
  branch_of_def truthy_def replace_slash_def exit_status_def Let_def


lemmas lvm_defs =
  Snapshot_cleanup_def LvmSnapshot_cleanup_def LvmSnapshot_mountpoint_def device_def snapname_def
  os_wait_def lvm_flags_def check_call_def effect_def bindE_def returnE_def liftE_def Let_def


section \<open>Bup.save: graft or strip\<close>

text \<open>
  C7. For every graft/strip argument passed to \<^verbatim>\<open>save\<close>: the command that is started is
  \<^verbatim>\<open>bup save\<close>, its options, \<^verbatim>\<open>--name branch\<close>, then \<^verbatim>\<open>--graft\<close> followed by the
  argument if the argument contains \<^verbatim>\<open>=\<close>, and \<^verbatim>\<open>--strip-path\<close> followed by the
  argument otherwise, then \<^verbatim>\<open>--tree --commit\<close> if verbose, then the paths.
\<close>

theorem save_graft_or_strip:
  "trace (snd (Bup_save E v ps branch graft remote_rep w)) =
       trace w @ [save_cmd v ps branch graft remote_rep]
   \<and> save_cmd v ps branch graft remote_rep =
       ([''bup'', ''save'']
        @ (if v \<le> 0 then [''--quiet''] else if 3 \<le> v then [''--verbose''] else [])
        @ (if truthy remote_rep then [''-r'', the remote_rep] else [])
        @ [''--name'', branch])
       @ [if CHR ''='' \<in> set graft then ''--graft'' else ''--strip-path'', graft]
       @ (if 2 \<le> v then [''--tree'', ''--commit''] else []) @ ps"
  by (simp add: Bup_save_def save_cmd_def check_call_trace)

text \<open>Both cases on the concrete machine: a graft specification and a plain prefix.\<close>

theorem save_graft_or_strip_witness:
  "trace (snd (Bup_save env0 0 [''/mnt/home''] ''b'' ''/mnt/home=/home'' None world0)) =
     [[''bup'', ''save'', ''--quiet'', ''--name'', ''b'', ''--graft'', ''/mnt/home=/home'', ''/mnt/home'']]
   \<and> trace (snd (Bup_save env0 0 [''/home''] ''b'' ''/home'' None world0)) =
     [[''bup'', ''save'', ''--quiet'', ''--name'', ''b'', ''--strip-path'', ''/home'', ''/home'']]"
  using save_graft_or_strip [of env0 0 "[''/mnt/home'']" "''b''" "''/mnt/home=/home''" None world0]
        save_graft_or_strip [of env0 0 "[''/home'']" "''b''" "''/home''" None world0]
  by (simp add: truthy_def world0_def)

section \<open>The body of the loop: index, then save\<close>

text \<open>When the index command succeeds, the next command the body starts is the save
  command, built from the snapshot object's \<^verbatim>\<open>path\<close> and \<^verbatim>\<open>src_path\<close>.\<close>

lemma process_body_trace:
  assumes idx: "run E (length (trace w))
                  (index_cmd (verbose a) (path (snap w)) (exclude a) (exclude_rx a)
                     (exclude_from a) (exclude_rx_from a) True) = Exit0"
  shows "\<exists>rest. trace (snd (process_body E a s w)) =
           trace w
           @ [index_cmd (verbose a) (path (snap w)) (exclude a) (exclude_rx a)
                (exclude_from a) (exclude_rx_from a) True,
              save_cmd (verbose a) [path (snap w)] (branch_of E a (src_path (snap w)))
                (path (snap w)) (remote a)]
           @ rest"
proof -
  let ?ic = "index_cmd (verbose a) (path (snap w)) (exclude a) (exclude_rx a)
                     (exclude_from a) (exclude_rx_from a) True"
  let ?sc = "save_cmd (verbose a) [path (snap w)] (branch_of E a (src_path (snap w)))
                (path (snap w)) (remote a)"
  define w1 where "w1 = effect E ?ic (w\<lparr>trace := trace w @ [?ic]\<rparr>)"
  have i: "Bup_index E (verbose a) (path (snap w)) (exclude a) (exclude_rx a)
                     (exclude_from a) (exclude_rx_from a) True w = (Inr True, w1)"
    using idx by (simp add: Bup_index_def check_call_Exit0 w1_def)
  have s1: "snap w1 = snap w" and t1: "trace w1 = trace w @ [?ic]"
    by (simp_all add: w1_def effect_frame)
  obtain r w2 where sv: "check_call E ?sc w1 = (r, w2)" by (cases "check_call E ?sc w1")
  from check_call_cases[OF sv] have t2: "trace w2 = trace w @ [?ic, ?sc]" by (simp add: t1)
  show ?thesis
  proof (cases r)
    case (Inl e)
    then have "process_body E a s w = (Inl e, w2)"
      using i sv by (simp add: process_body_def bindE_def returnE_def Bup_save_def s1)
    then show ?thesis using t2 by simp
  next
    case (Inr saved)
    let ?k = "bindE (process_check E a (if \<not> saved then False else s)) (\<lambda>success'.
                  bindE (process_parity E a) (\<lambda>_.
                  bindE (stats_step E a) (\<lambda>_. returnE success')))"
    have "process_body E a s w = ?k w2"
      using i sv Inr by (simp add: process_body_def bindE_def returnE_def Bup_save_def s1)
    moreover have "prefix (trace w2) (trace (snd (?k w2)))" by (rule prefix_after_save)
    ultimately show ?thesis using t2 by (auto simp add: prefix_def)
  qed
qed

lemma keep_bindE:
  assumes "\<And>w. g (snd (m w)) = g w" and "\<And>x w. g (snd (f x w)) = g w"
  shows "g (snd (bindE m f w)) = g w"
proof (cases "m w")
  case (Pair r w1)
  then show ?thesis using assms(1)[of w] assms(2)[of _ w1]
    by (cases r) (auto simp add: bindE_def)
qed

lemma keep_simple:
  "g (snd (returnE x w)) = g w" "g (snd (raiseE e w)) = g w" "g (snd (liftE r w)) = g w"
  "g (snd (stats_step E a w)) = g w"
  by (simp_all add: returnE_def raiseE_def liftE_def stats_step_def split: option.splits)

lemma snap_Bup_fsck: "snap (snd (Bup_fsck E v r par rep w)) = snap w"
  unfolding Bup_fsck_def
  by (intro keep_bindE[where g=snap] keep_simple)
     (auto intro!: keep_bindE[where g=snap] keep_simple check_call_frame)

lemma snap_process_check: "snap (snd (process_check E a s w)) = snap w"
  unfolding process_check_def
  by (auto intro!: keep_bindE[where g=snap] keep_simple snap_Bup_fsck)

lemma snap_process_parity: "snap (snd (process_parity E a w)) = snap w"
  unfolding process_parity_def
  by (auto intro!: keep_bindE[where g=snap] keep_simple snap_Bup_fsck)

lemma snap_process_body: "snap (snd (process_body E a s w)) = snap w"
  unfolding process_body_def Bup_index_def Bup_save_def
  by (intro keep_bindE[where g=snap] check_call_frame)
     (auto intro!: keep_bindE[where g=snap] keep_simple check_call_frame
                   snap_process_check snap_process_parity)

lemma process_path_NoSnapshot:
  assumes "select (snapshot a) = Inr NoSnapshot"
  shows "process_path E a p s w =
     (case process_body E a s (w\<lparr>snap := Snapshot_init NoSnapshot p (size_opt a) (verbose a) (mountpoint a)\<rparr>) of
        (r, w2) \<Rightarrow> (r, w2\<lparr>snap := (snap w2)\<lparr>exists := False\<rparr>\<rparr>))"
proof -
  let ?w0 = "w\<lparr>snap := Snapshot_init NoSnapshot p (size_opt a) (verbose a) (mountpoint a)\<rparr>"
  obtain r w2 where b: "process_body E a s ?w0 = (r, w2)" by (cases "process_body E a s ?w0")
  have "snap w2 = snap ?w0" using snap_process_body[of E a s ?w0] b by simp
  then have c: "cls (snap w2) = NoSnapshot" by (simp add: Snapshot_init_def)
  show ?thesis using assms b c
    by (cases r)
       (simp_all add: process_path_def with_stmt_def Snapshot_enter_def Snapshot_exit_def
          Snapshot_cleanup_def bindE_def returnE_def liftE_def Snapshot_init_def)
qed

text \<open>
  C10. For every path processed (every state in which the body of the loop runs and the
  index succeeds), \<^verbatim>\<open>save\<close> is started with the snapshot's materialized path
  \<^verbatim>\<open>snapshot.path\<close> both as the only path saved and as the graft/strip argument. So
  whenever that path contains no \<^verbatim>\<open>=\<close>, the command carries \<^verbatim>\<open>--strip-path\<close> with the
  materialized path; the source path \<^verbatim>\<open>src_path\<close> enters the command through the branch
  name only, never as a graft mapping.
\<close>

theorem save_uses_materialized_path:
  assumes idx: "run E (length (trace w))
                  (index_cmd (verbose a) (path (snap w)) (exclude a) (exclude_rx a)
                     (exclude_from a) (exclude_rx_from a) True) = Exit0"
  shows "(\<exists>rest. trace (snd (process_body E a s w)) =
           trace w
           @ [index_cmd (verbose a) (path (snap w)) (exclude a) (exclude_rx a)
                (exclude_from a) (exclude_rx_from a) True,
              save_cmd (verbose a) [path (snap w)] (branch_of E a (src_path (snap w)))
                (path (snap w)) (remote a)]
           @ rest)
       \<and> (CHR ''='' \<notin> set (path (snap w)) \<longrightarrow>
          save_cmd (verbose a) [path (snap w)] (branch_of E a (src_path (snap w)))
                 (path (snap w)) (remote a) =
               [''bup'', ''save'']
               @ (if verbose a \<le> 0 then [''--quiet''] else if 3 \<le> verbose a then [''--verbose''] else [])
               @ (if truthy (remote a) then [''-r'', the (remote a)] else [])
               @ [''--name'', branch_of E a (src_path (snap w)), ''--strip-path'', path (snap w)]
               @ (if 2 \<le> verbose a then [''--tree'', ''--commit''] else [])
               @ [path (snap w)])"
  using process_body_trace[OF idx, of s] by (simp add: save_cmd_def)

text \<open>On the mounted LVM snapshot of \<^verbatim>\<open>/home/user\<close>: the materialized path is
  stripped, the branch is named after the source path.\<close>

theorem save_uses_materialized_path_witness:
  "trace (snd (process_body env0 args0 True world_lvm)) =
     [[''bup'', ''index'', ''--one-file-system'', ''/media/bup/vg0-home/user''],
      [''bup'', ''save'', ''--quiet'', ''--name'', ''myhost-_home_user'',
       ''--strip-path'', ''/media/bup/vg0-home/user'', ''/media/bup/vg0-home/user'']]"
proof -
  have i: "run env0 (length (trace world_lvm))
                  (index_cmd (verbose args0) (path (snap world_lvm)) (exclude args0) (exclude_rx args0)
                     (exclude_from args0) (exclude_rx_from args0) True) = Exit0"
    by (simp add: env0_def)
  have "trace (snd (process_body env0 args0 True world_lvm)) =
     [[''bup'', ''index'', ''--one-file-system'', ''/media/bup/vg0-home/user''],
      [''bup'', ''save'', ''--quiet'', ''--name'', ''myhost-_home_user'',
       ''--strip-path'', ''/media/bup/vg0-home/user'', ''/media/bup/vg0-home/user'']]"
    by (simp add: process_body_def bindE_def returnE_def Bup_index_def index_cmd_def check_call_def
          effect_def Bup_save_def save_cmd_def branch_of_def truthy_def replace_slash_def
          process_check_def process_parity_def stats_step_def env0_def args0_def world_lvm_def
          world0_def Let_def)
  then show ?thesis using save_uses_materialized_path[OF i, of True] by simp
qed

section \<open>The branch name\<close>

text \<open>
  C8, as stated, fails: with base name \<open>myhost\<close>, no explicit branch name, no
  snapshot and the path \<^verbatim>\<open>/home\<close>, the run starts \<^verbatim>\<open>bup save --name myhost-_home\<close>;
  the branch is not \<open>myhost_home\<close>.
\<close>

theorem branch_name_counterexample:
  "trace (snd (main env0 args0 world0)) =
     [[''bup'', ''index'', ''--one-file-system'', ''/home''],
      [''bup'', ''save'', ''--quiet'', ''--name'', ''myhost-_home'', ''--strip-path'', ''/home'', ''/home'']]
   \<and> branch_of env0 args0 ''/home'' \<noteq> ''myhost_home''"
  by (simp add: run_defs env0_def args0_def world0_def)

text \<open>
  C8, amended. For a run with base name \<open>myhost\<close>, no explicit branch name, snapshotting
  disabled and source path \<^verbatim>\<open>/home\<close>, whose index succeeds, the branch name passed to
  \<^verbatim>\<open>save\<close> is \<open>myhost-_home\<close>: the base name, a hyphen, and the source path with every
  \<^verbatim>\<open>/\<close> replaced by an underscore.
\<close>

theorem branch_name_myhost_home:
  assumes "name a = Some ''myhost''" and "\<not> truthy (branch_name a)"
      and "select (snapshot a) = Inr NoSnapshot"
      and "run E (length (trace w))
             (index_cmd (verbose a) ''/home'' (exclude a) (exclude_rx a)
                (exclude_from a) (exclude_rx_from a) True) = Exit0"
  shows "\<exists>rest. trace (snd (process_path E a ''/home'' s w)) =
           trace w
           @ [index_cmd (verbose a) ''/home'' (exclude a) (exclude_rx a)
                (exclude_from a) (exclude_rx_from a) True,
              save_cmd (verbose a) [''/home''] ''myhost-_home'' ''/home'' (remote a)]
           @ rest"
proof -
  let ?w0 = "w\<lparr>snap := Snapshot_init NoSnapshot ''/home'' (size_opt a) (verbose a) (mountpoint a)\<rparr>"
  have p: "path (snap ?w0) = ''/home''" "src_path (snap ?w0) = ''/home''" "trace ?w0 = trace w"
    by (simp_all add: Snapshot_init_def)
  have b: "branch_of E a ''/home'' = ''myhost-_home''"
    using assms(1,2) by (simp add: branch_of_def truthy_def replace_slash_def)
  have "run E (length (trace ?w0))
          (index_cmd (verbose a) (path (snap ?w0)) (exclude a) (exclude_rx a)
             (exclude_from a) (exclude_rx_from a) True) = Exit0"
    using assms(4) p by simp
  from process_body_trace[OF this, of s]
  obtain rest where "trace (snd (process_body E a s ?w0)) =
      trace w @ [index_cmd (verbose a) ''/home'' (exclude a) (exclude_rx a)
                (exclude_from a) (exclude_rx_from a) True,
              save_cmd (verbose a) [''/home''] ''myhost-_home'' ''/home'' (remote a)] @ rest"
    using p b by auto
  then show ?thesis
    by (auto simp add: process_path_NoSnapshot[OF assms(3)] split: prod.splits)
qed

theorem branch_name_myhost_home_witness:
  "trace (snd (process_path env0 args0 ''/home'' True world0)) =
     [[''bup'', ''index'', ''--one-file-system'', ''/home''],
      [''bup'', ''save'', ''--quiet'', ''--name'', ''myhost-_home'', ''--strip-path'', ''/home'', ''/home'']]"
proof -
  have h: "name args0 = Some ''myhost''" "\<not> truthy (branch_name args0)"
    "select (snapshot args0) = Inr NoSnapshot"
    "run env0 (length (trace world0))
             (index_cmd (verbose args0) ''/home'' (exclude args0) (exclude_rx args0)
                (exclude_from args0) (exclude_rx_from args0) True) = Exit0"
    by (simp_all add: args0_def truthy_def select_def lower_def lower_char_def env0_def)
  have "trace (snd (process_path env0 args0 ''/home'' True world0)) =
     [[''bup'', ''index'', ''--one-file-system'', ''/home''],
      [''bup'', ''save'', ''--quiet'', ''--name'', ''myhost-_home'', ''--strip-path'', ''/home'', ''/home'']]"
    by (simp add: run_defs env0_def args0_def world0_def)
  then show ?thesis using branch_name_myhost_home[OF h, of True] by simp
qed

section \<open>Verification and repair\<close>

lemma Bup_fsck_check:
  "fsck_base_cmd v r = Inr base \<Longrightarrow>
   Bup_fsck E v r False rep w = check_call E (base @ [if rep then ''--repair'' else ''--quick'']) w"
  by (simp add: Bup_fsck_def bindE_def liftE_def)

text \<open>
  C5, as stated, fails: with verification enabled and repair disabled, a failed
  \<^verbatim>\<open>fsck --quick\<close> is followed by a second \<^verbatim>\<open>fsck --quick\<close>, and when that one
  succeeds the path is not marked failed: the run exits with status 0.
\<close>

theorem verify_counterexample:
  "fst (main (env_failing [2]) args_check world0) = Exited 0
   \<and> trace (snd (main (env_failing [2]) args_check world0)) =
     [[''bup'', ''index'', ''--one-file-system'', ''/home''],
      [''bup'', ''save'', ''--quiet'', ''--name'', ''myhost-_home'', ''--strip-path'', ''/home'', ''/home''],
      [''bup'', ''fsck'', ''--quick''],
      [''bup'', ''fsck'', ''--quick'']]
   \<and> run (env_failing [2]) 2 [''bup'', ''fsck'', ''--quick''] = ExitFail
   \<and> \<not> repair args_check"
  by (simp add: run_defs env_failing_def args_check_def env0_def args0_def world0_def)

text \<open>
  C5, amended. When verification is enabled for a path (and the remote address, if any,
  is well formed), the first \<^verbatim>\<open>fsck\<close> is started as \<^verbatim>\<open>fsck --repair\<close> if repair is
  enabled and as \<^verbatim>\<open>fsck --quick\<close> otherwise. If it succeeds nothing else is started and
  the success flag is unchanged. If it fails, exactly one more command is started,
  \<^verbatim>\<open>fsck --quick\<close>, whether or not repair is enabled, and its result alone decides: the
  flag is unchanged if it succeeds and false if it fails.
\<close>

theorem verify_first_call_then_one_recheck:
  assumes chk: "check a" and base: "fsck_base_cmd (verbose a) (remote a) = Inr base"
  shows
    "(run E (length (trace w)) (base @ [if repair a then ''--repair'' else ''--quick'']) = Exit0 \<longrightarrow>
        fst (process_check E a s w) = Inr s
        \<and> trace (snd (process_check E a s w)) =
            trace w @ [base @ [if repair a then ''--repair'' else ''--quick'']])
     \<and> (run E (length (trace w)) (base @ [if repair a then ''--repair'' else ''--quick'']) = ExitFail \<longrightarrow>
        trace (snd (process_check E a s w)) =
          trace w @ [base @ [if repair a then ''--repair'' else ''--quick''], base @ [''--quick'']]
        \<and> (run E (Suc (length (trace w))) (base @ [''--quick'']) = Exit0 \<longrightarrow>
             fst (process_check E a s w) = Inr s)
        \<and> (run E (Suc (length (trace w))) (base @ [''--quick'']) = ExitFail \<longrightarrow>
             fst (process_check E a s w) = Inr False))"
proof -
  let ?c1 = "base @ [if repair a then ''--repair'' else ''--quick'']"
  let ?c2 = "base @ [''--quick'']"
  have f1: "Bup_fsck E (verbose a) (remote a) False (repair a) = check_call E ?c1"
    by (rule ext) (simp add: Bup_fsck_check[OF base])
  have f2: "Bup_fsck E (verbose a) (remote a) False False = check_call E ?c2"
    by (rule ext) (simp add: Bup_fsck_check[OF base])
  have pc: "process_check E a s =
     bindE (check_call E ?c1) (\<lambda>ok.
          if \<not> ok then
            bindE (check_call E ?c2) (\<lambda>ok2.
              if \<not> ok2 then returnE False else returnE s)
          else returnE s)"
    unfolding process_check_def f1 f2 using chk by simp
  show ?thesis
  proof (intro conjI impI)
    assume ok: "run E (length (trace w)) ?c1 = Exit0"
    show "fst (process_check E a s w) = Inr s"
      by (simp add: pc bindE_def check_call_Exit0[OF ok] returnE_def)
    show "trace (snd (process_check E a s w)) = trace w @ [?c1]"
      by (simp add: pc bindE_def check_call_Exit0[OF ok] returnE_def effect_frame)
  next
    assume bad: "run E (length (trace w)) ?c1 = ExitFail"
    let ?w1 = "w\<lparr>trace := trace w @ [?c1]\<rparr>"
    have p1: "process_check E a s w =
       bindE (check_call E ?c2) (\<lambda>ok2. if \<not> ok2 then returnE False else returnE s) ?w1"
      by (simp add: pc bindE_def check_call_ExitFail[OF bad])
    show "trace (snd (process_check E a s w)) = trace w @ [?c1, ?c2]"
    proof -
      obtain r w2 where c: "check_call E ?c2 ?w1 = (r, w2)" by (cases "check_call E ?c2 ?w1")
      from check_call_cases[OF c] have "trace w2 = trace w @ [?c1, ?c2]" by simp
      then show ?thesis using c by (cases r) (simp_all add: p1 bindE_def returnE_def)
    qed
    {
      assume ok2: "run E (Suc (length (trace w))) ?c2 = Exit0"
      then have "run E (length (trace ?w1)) ?c2 = Exit0" by simp
      from check_call_Exit0[OF this]
      show "fst (process_check E a s w) = Inr s" by (simp add: p1 bindE_def returnE_def)
    }
    {
      assume bad2: "run E (Suc (length (trace w))) ?c2 = ExitFail"
      then have "run E (length (trace ?w1)) ?c2 = ExitFail" by simp
      from check_call_ExitFail[OF this]
      show "fst (process_check E a s w) = Inr False" by (simp add: p1 bindE_def returnE_def)
    }
  qed
qed

text \<open>With repair, a failed \<^verbatim>\<open>--repair\<close> and a good re-check; without repair, two
  failed checks.\<close>

theorem verify_first_call_then_one_recheck_witness:
  "process_check (env_failing [0]) args_repair True world0 =
     (Inr True, world0\<lparr>trace := [[''bup'', ''fsck'', ''--repair''], [''bup'', ''fsck'', ''--quick'']]\<rparr>)
   \<and> process_check (env_failing [0, 1]) args_check True world0 =
     (Inr False, world0\<lparr>trace := [[''bup'', ''fsck'', ''--quick''], [''bup'', ''fsck'', ''--quick'']]\<rparr>)"
proof -
  have h1: "check args_repair" "fsck_base_cmd (verbose args_repair) (remote args_repair) = Inr [''bup'', ''fsck'']"
    by (simp_all add: args_repair_def args0_def fsck_base_cmd_def truthy_def)
  have h2: "check args_check" "fsck_base_cmd (verbose args_check) (remote args_check) = Inr [''bup'', ''fsck'']"
    by (simp_all add: args_check_def args0_def fsck_base_cmd_def truthy_def)
  have "process_check (env_failing [0]) args_repair True world0 =
     (Inr True, world0\<lparr>trace := [[''bup'', ''fsck'', ''--repair''], [''bup'', ''fsck'', ''--quick'']]\<rparr>)"
    by (simp add: run_defs env_failing_def args_repair_def env0_def args0_def world0_def)
  moreover have "process_check (env_failing [0, 1]) args_check True world0 =
     (Inr False, world0\<lparr>trace := [[''bup'', ''fsck'', ''--quick''], [''bup'', ''fsck'', ''--quick'']]\<rparr>)"
    by (simp add: run_defs env_failing_def args_check_def env0_def args0_def world0_def)
  ultimately show ?thesis
    using verify_first_call_then_one_recheck[OF h1, of "env_failing [0]" world0 True]
          verify_first_call_then_one_recheck[OF h2, of "env_failing [0, 1]" world0 True]
    by simp
qed

section \<open>The loop: overall success\<close>

text \<open>The body never turns \<^verbatim>\<open>success\<close> from false to true: started with \<open>s\<close> it
  ends with the conjunction of \<open>s\<close> and the flag it gives when started with true.\<close>

lemma and_flag_simps:
  "and_flag s (Inl e, w) = (Inl e, w)" "and_flag s (Inr ok, w) = (Inr (s \<and> ok), w)"
  "and_flag True r = r" "and_flag s (and_flag False r) = and_flag False r"
  by (auto simp add: and_flag_def split: prod.splits sum.splits)

lemma and_flag_bindE:
  assumes "\<And>x w. f x s w = and_flag s (f x True w)"
  shows "bindE m (\<lambda>x. f x s) w = and_flag s (bindE m (\<lambda>x. f x True) w)"
proof (cases "m w")
  case (Pair r w1)
  then show ?thesis using assms by (cases r) (simp_all add: bindE_def and_flag_simps)
qed

lemma process_check_flag: "process_check E a s w = and_flag s (process_check E a True w)"
  by (auto simp add: process_check_def bindE_def returnE_def and_flag_def split: prod.splits sum.splits)

lemma after_save_flag:
  "bindE (process_check E a s) (\<lambda>success'.
     bindE (process_parity E a) (\<lambda>_. bindE (stats_step E a) (\<lambda>_. returnE success'))) w =
   and_flag s (bindE (process_check E a True) (\<lambda>success'.
     bindE (process_parity E a) (\<lambda>_. bindE (stats_step E a) (\<lambda>_. returnE success'))) w)"
proof -
  obtain r w1 where c: "process_check E a True w = (r, w1)" by (cases "process_check E a True w")
  have s: "process_check E a s w = and_flag s (r, w1)"
    using process_check_flag[of E a s w] c by simp
  show ?thesis
  proof (cases r)
    case (Inl e)
    with c s show ?thesis by (simp add: bindE_def and_flag_simps)
  next
    case (Inr ok)
    with c s show ?thesis
      by (auto simp add: bindE_def returnE_def and_flag_def split: prod.splits sum.splits)
  qed
qed

lemma process_body_flag: "process_body E a s w = and_flag s (process_body E a True w)"
proof -
  let ?tail = "\<lambda>s0. bindE (process_check E a s0) (\<lambda>success'.
     bindE (process_parity E a) (\<lambda>_. bindE (stats_step E a) (\<lambda>_. returnE success')))"
  have t: "?tail (if \<not> saved then False else s) w0 =
           and_flag s (?tail (if \<not> saved then False else True) w0)" for saved w0
  proof (cases saved)
    case True
    then show ?thesis using after_save_flag[of E a s w0] by simp
  next
    case False
    then show ?thesis using after_save_flag[of E a False w0] by (simp add: and_flag_simps)
  qed
  have r: "returnE False w0 = and_flag s (returnE False w0)" for w0
    by (simp add: returnE_def and_flag_simps)
  show ?thesis
    unfolding process_body_def
    apply (rule and_flag_bindE)
    subgoal for indexed w0
      apply (cases indexed)
       apply simp
       apply (rule and_flag_bindE)
       apply (rule and_flag_bindE)
       apply (rule t)
      apply (simp add: r[symmetric])
      done
    done
qed

lemma Snapshot_exit_result: "Snapshot_exit E t w = (Inr b, w') \<Longrightarrow> b = (t = None)"
  by (auto simp add: Snapshot_exit_def bindE_def split: prod.splits sum.splits)

lemma with_Snapshot_flag:
  "bindE (with_stmt en (Snapshot_exit E) (process_body E a s))
      (\<lambda>r. returnE (case r of Some s' \<Rightarrow> s' | None \<Rightarrow> s)) w0 =
   and_flag s (bindE (with_stmt en (Snapshot_exit E) (process_body E a True))
      (\<lambda>r. returnE (case r of Some s' \<Rightarrow> s' | None \<Rightarrow> True)) w0)"
proof (cases "en w0")
  case (Pair r0 w1)
  show ?thesis
  proof (cases r0)
    case (Inl e)
    with Pair show ?thesis by (simp add: with_stmt_def bindE_def and_flag_simps)
  next
    case (Inr u)
    obtain rb w2 where b: "process_body E a True w1 = (rb, w2)" by (cases "process_body E a True w1")
    then have bs: "process_body E a s w1 = and_flag s (rb, w2)"
      using process_body_flag[of E a s w1] by simp
    show ?thesis
    proof (cases rb)
      case (Inl e)
      obtain rx w3 where x: "Snapshot_exit E (Some e) w2 = (rx, w3)"
        by (cases "Snapshot_exit E (Some e) w2")
      have "rx \<noteq> Inr True" using Snapshot_exit_result[of E "Some e" w2 True w3] x by auto
      then show ?thesis using Pair Inr b bs Inl x
        by (cases rx) (auto simp add: with_stmt_def bindE_def returnE_def and_flag_simps)
    next
      case (Inr ok)
      obtain rx w3 where x: "Snapshot_exit E None w2 = (rx, w3)"
        by (cases "Snapshot_exit E None w2")
      show ?thesis using Pair \<open>r0 = Inr u\<close> b bs Inr x
        by (cases rx) (auto simp add: with_stmt_def bindE_def returnE_def and_flag_simps)
    qed
  qed
qed

lemma process_path_flag: "process_path E a p s w = and_flag s (process_path E a p True w)"
proof (cases "select (snapshot a)")
  case (Inl e)
  then show ?thesis by (simp add: process_path_def bindE_liftE and_flag_simps)
next
  case (Inr c)
  let ?w0 = "w\<lparr>snap := Snapshot_init c p (size_opt a) (verbose a) (mountpoint a)\<rparr>"
  have u: "process_path E a p s' w =
      bindE (with_stmt (Snapshot_enter E) (Snapshot_exit E) (process_body E a s'))
        (\<lambda>r. returnE (case r of Some x \<Rightarrow> x | None \<Rightarrow> s')) ?w0" for s'
    using Inr by (simp add: process_path_def bindE_liftE bindE_step)
  show ?thesis unfolding u by (rule with_Snapshot_flag)
qed

lemma process_loop_flags:
  "process_loop E a ps s w = (Inr b, w') \<Longrightarrow>
   b = (s \<and> False \<notin> set (path_flags E a ps w)) \<and> length (path_flags E a ps w) = length ps"
proof (induction ps arbitrary: s w)
  case Nil
  then show ?case by simp
next
  case (Cons p ps)
  obtain r w1 where t: "process_path E a p True w = (r, w1)" by (cases "process_path E a p True w")
  have ps: "process_path E a p s w = and_flag s (r, w1)"
    using process_path_flag[of E a p s w] t by simp
  show ?case
  proof (cases r)
    case (Inl e)
    with ps Cons.prems show ?thesis by (simp add: and_flag_simps)
  next
    case (Inr ok)
    with ps Cons.prems have "process_loop E a ps (s \<and> ok) w1 = (Inr b, w')"
      by (simp add: and_flag_simps)
    from Cons.IH[OF this] show ?thesis using t Inr by auto
  qed
qed

lemma process_stats_free:
  "process E a w = (Inr b, w') \<Longrightarrow> process_loop E a (paths a) True w = (Inr b, w')"
  by (auto simp add: process_def bindE_def returnE_def stats_step_def
           split: prod.splits sum.splits option.splits if_splits)

lemma main_try_runs_process:
  "main_try E a w = (Inr (Some b), w') \<Longrightarrow>
   \<exists>w1 w2. process E a w1 = (Inr b, w2) \<and> w' = w2\<lparr>lockfile := None\<rparr>"
  by (auto simp add: main_try_def with_Pidfile_def with_stmt_def bindE_def returnE_def
                     Pidfile_exit_def Pidfile_remove_def os_remove_def
           split: prod.splits sum.splits if_splits option.splits)

lemma main_exit: "main_try E a w = (Inr (Some b), w') \<Longrightarrow> main E a w = (Exited (if b then 0 else 1), w')"
  by (simp add: main_def)

text \<open>
  C1. For every configured sequence of paths: when the processing loop returns, the flag
  it returns is true if and only if no path's flag is false; every path has a flag;
  and the flag is the conjunction of the flags in any order. When the \<^verbatim>\<open>try\<close> block
  of \<^verbatim>\<open>main\<close> ends with a flag, that flag is the one \<^verbatim>\<open>process\<close> returned (the
  final state is the one \<^verbatim>\<open>process\<close> left, without the lock file), and the process
  exits with status 0 if the flag is true and with status 1 if it is false.
\<close>

theorem overall_success_is_conjunction:
  "(process E a w = (Inr b, w') \<longrightarrow>
       b = (False \<notin> set (path_flags E a (paths a) w))
     \<and> length (path_flags E a (paths a) w) = length (paths a)
     \<and> (\<forall>fs. mset fs = mset (path_flags E a (paths a) w) \<longrightarrow> b = list_all (\<lambda>f. f) fs))
   \<and> (main_try E a w = (Inr (Some b), w') \<longrightarrow>
       (\<exists>w1 w2. process E a w1 = (Inr b, w2) \<and> w' = w2\<lparr>lockfile := None\<rparr>)
     \<and> fst (main E a w) = Exited (if b then 0 else 1)
     \<and> exit_status (fst (main E a w)) = (if b then 0 else 1))"
proof (intro conjI impI)
  assume p: "process E a w = (Inr b, w')"
  from process_loop_flags[OF process_stats_free[OF p]]
  show b: "b = (False \<notin> set (path_flags E a (paths a) w))"
    and "length (path_flags E a (paths a) w) = length (paths a)" by simp_all
  show "\<forall>fs. mset fs = mset (path_flags E a (paths a) w) \<longrightarrow> b = list_all (\<lambda>f. f) fs"
  proof (intro allI impI)
    fix fs assume "mset fs = mset (path_flags E a (paths a) w)"
    then have "set fs = set (path_flags E a (paths a) w)" by (rule mset_eq_setD)
    moreover have "list_all (\<lambda>f. f) fs = (False \<notin> set fs)"
      by (induction fs) auto
    ultimately show "b = list_all (\<lambda>f. f) fs" using b by simp
  qed
next
  assume m: "main_try E a w = (Inr (Some b), w')"
  show "\<exists>w1 w2. process E a w1 = (Inr b, w2) \<and> w' = w2\<lparr>lockfile := None\<rparr>"
    by (rule main_try_runs_process[OF m])
  show "fst (main E a w) = Exited (if b then 0 else 1)" by (simp add: main_exit[OF m])
  show "exit_status (fst (main E a w)) = (if b then 0 else 1)"
    by (simp add: main_exit[OF m] exit_status_def)
qed

text \<open>Two paths, the first index fails: flags \<open>[False, True]\<close>, exit status 1. One
  path, everything succeeds: exit status 0.\<close>

theorem overall_success_is_conjunction_witness:
  "path_flags (env_failing [0]) args_two (paths args_two) world0 = [False, True]
   \<and> fst (process (env_failing [0]) args_two world0) = Inr False
   \<and> exit_status (fst (main (env_failing [0]) args_two world0)) = 1
   \<and> path_flags env0 args0 (paths args0) world0 = [True]
   \<and> fst (process env0 args0 world0) = Inr True
   \<and> exit_status (fst (main env0 args0 world0)) = 0"
proof -
  have f1: "path_flags (env_failing [0]) args_two (paths args_two) world0 = [False, True]"
    by (simp add: run_defs env_failing_def args_two_def env0_def args0_def world0_def)
  have f2: "path_flags env0 args0 (paths args0) world0 = [True]"
    by (simp add: run_defs env0_def args0_def world0_def)
  have p1: "process (env_failing [0]) args_two world0 =
              (Inr False, snd (process (env_failing [0]) args_two world0))"
    by (simp add: run_defs env_failing_def args_two_def env0_def args0_def world0_def)
  have p2: "process env0 args0 world0 = (Inr True, snd (process env0 args0 world0))"
    by (simp add: run_defs env0_def args0_def world0_def)
  have m1: "main_try (env_failing [0]) args_two world0 =
              (Inr (Some False), snd (main_try (env_failing [0]) args_two world0))"
    by (simp add: run_defs env_failing_def args_two_def env0_def args0_def world0_def)
  have m2: "main_try env0 args0 world0 = (Inr (Some True), snd (main_try env0 args0 world0))"
    by (simp add: run_defs env0_def args0_def world0_def)
  from overall_success_is_conjunction[of "env_failing [0]" args_two world0 False
         "snd (process (env_failing [0]) args_two world0)"] p1
  have a: "False = (False \<notin> set (path_flags (env_failing [0]) args_two (paths args_two) world0))"
    by blast
  from overall_success_is_conjunction[of "env_failing [0]" args_two world0 False
         "snd (main_try (env_failing [0]) args_two world0)"] m1
  have b: "exit_status (fst (main (env_failing [0]) args_two world0)) = 1" by (simp add: exit_status_def)
  from overall_success_is_conjunction[of env0 args0 world0 True
         "snd (main_try env0 args0 world0)"] m2
  have c: "exit_status (fst (main env0 args0 world0)) = 0" by (simp add: exit_status_def)
  show ?thesis using f1 f2 p1 p2 a b c by (metis fst_conv)
qed

section \<open>A failed index\<close>








section \<open>Exit codes\<close>

text \<open>Whatever happens, the script ends with status 0 or 1: \<^verbatim>\<open>main\<close> turns every
  \<^verbatim>\<open>SystemExit\<close> of its \<^verbatim>\<open>try\<close> block into a plain return, and raises every other
  exception again.\<close>

lemma exit_status_0_or_1: "exit_status (fst (main E a w)) = 0 \<or> exit_status (fst (main E a w)) = 1"
  by (auto simp add: main_def exit_status_def split: prod.splits sum.splits exn.splits option.splits)

text \<open>
  C2 (the code departs from it). When the repository is missing and \<^verbatim>\<open>bup init\<close>
  fails, \<^verbatim>\<open>bail(3)\<close> raises \<^verbatim>\<open>SystemExit(3)\<close> inside the \<^verbatim>\<open>try\<close> block, where
  \<^verbatim>\<open>except SystemExit: return\<close> catches it: the process exits with status 0, not 3.
  When an exception aborts the run (here: the lock file cannot be created),
  \<^verbatim>\<open>except: raise\<close> raises it again before \<^verbatim>\<open>bail(2)\<close>: the process exits with status
  1, not 2.
\<close>

theorem exit_codes_at_failing_inputs:
  "main env_init_fails args0 world0 = (Returned, world0\<lparr>trace := [[''bup'', ''init'']]\<rparr>)
   \<and> exit_status (fst (main env_init_fails args0 world0)) = 0
   \<and> fst (main env_lock_denied args0 world0) = Uncaught (OSError EPERM)
   \<and> exit_status (fst (main env_lock_denied args0 world0)) = 1"
  by (simp add: run_defs env_init_fails_def env_lock_denied_def env0_def args0_def world0_def)

section \<open>Acquiring the lock\<close>

lemma read_text_ascii:
  "is_ascii s \<Longrightarrow> read_text E s = Some (universal_newlines s)"
  by (simp add: read_text_def)



lemma Pidfile_check_undecodable:
  assumes "lockfile w = Some s" and "read_err E = None" and "read_text E s = None"
  shows "Pidfile_check E w = (Inl UnboundLocalError, w)"
    and "Pidfile_create E pf w = (Inl UnboundLocalError, w)"
  using assms
  by (simp_all add: Pidfile_create_def os_open_excl_def Pidfile_check_def open_pidfile_def
        bindE_def raiseE_def)




section \<open>Releasing the lock\<close>

text \<open>\<^verbatim>\<open>__exit__\<close> removes the file after a normal end, never when the lock-held
  exception is passed to it, and after another exception only if the descriptor stored in
  \<^verbatim>\<open>self.pidfd\<close> is not 0. When \<^verbatim>\<open>create\<close> raises, \<^verbatim>\<open>__exit__\<close> is not called.\<close>

lemma Pidfile_exit_normal:
  "lockfile w = Some s \<Longrightarrow> dir_err E = None \<Longrightarrow>
     Pidfile_exit E None w = (Inr True, w\<lparr>lockfile := None\<rparr>)"
  by (simp add: Pidfile_exit_def Pidfile_remove_def os_remove_def bindE_def returnE_def)

lemma Pidfile_exit_held:
  "Pidfile_exit E (Some (ProcessRunningException p i)) w = (Inr False, w)"
  by (simp add: Pidfile_exit_def)

lemma Pidfile_exit_other:
  assumes "\<And>p i. e \<noteq> ProcessRunningException p i" and "pidfd w = Fd n"
  shows "n \<noteq> 0 \<Longrightarrow> lockfile w = Some s \<Longrightarrow> dir_err E = None \<Longrightarrow>
           Pidfile_exit E (Some e) w = (Inr False, w\<lparr>lockfile := None\<rparr>)"
    and "n = 0 \<Longrightarrow> Pidfile_exit E (Some e) w = (Inr False, w)"
  using assms
  by (cases e; simp add: Pidfile_exit_def Pidfile_remove_def os_remove_def bindE_def returnE_def)+

lemma with_Pidfile_held:
  "Pidfile_create E pf (w\<lparr>pidfd := Unset\<rparr>) = (Inl e, w1) \<Longrightarrow>
   with_Pidfile E pf body w = (Inl e, w1)"
  by (simp add: with_Pidfile_def with_stmt_def)

text \<open>
  C4 (the code departs from it). With the first free descriptor being 0, the lock is
  acquired with \<^verbatim>\<open>self.pidfd = 0\<close>; when \<^verbatim>\<open>--clear\<close> then fails
  (\<^verbatim>\<open>AttributeError\<close>), \<^verbatim>\<open>if self.pidfd:\<close> is false and the lock file is left behind,
  still holding this process's pid. With descriptor 3 the same run removes the file.
\<close>

theorem lock_left_behind_with_descriptor_0:
  "fst (main env_fd0 args_clear world0) = Uncaught AttributeError
   \<and> lockfile (snd (main env_fd0 args_clear world0)) = Some ''4242''
   \<and> pidfd (snd (main env_fd0 args_clear world0)) = Fd 0
   \<and> lockfile (snd (main (env_failing [0]) args_clear world0)) = None
   \<and> pidfd (snd (main (env_failing [0]) args_clear world0)) = Fd 3"
  by (simp add: run_defs env_fd0_def env_failing_def args_clear_def env0_def args0_def world0_def digit_char_def)

section \<open>Snapshot cleanup\<close>

lemma os_wait_frame:
  "snap (snd (os_wait E w)) = snap w" "mounted (snd (os_wait E w)) = mounted w"
  "blkdevs (snd (os_wait E w)) = blkdevs w" "trace (snd (os_wait E w)) = trace w"
  by (simp_all add: os_wait_def Let_def split: option.splits)

lemma lvremove_step_snap:
  "snap (snd ((if dev \<in> set (blkdevs w2)
                then (case check_call E cmd w2 of
                        (Inl (OSError e), w3) \<Rightarrow> (Inr (), w3)
                      | (Inl e, w3) \<Rightarrow> (Inl e, w3)
                      | (Inr _, w3) \<Rightarrow> (Inr (), w3))
                else (Inr (), w2)) :: (exn + unit) \<times> world)) = snap w2"
  using check_call_frame(1)[of E cmd w2]
  by (auto split: prod.splits sum.splits exn.splits)

lemma LvmSnapshot_cleanup_snap:
  "snap (snd (LvmSnapshot_cleanup E force w)) =
     (if \<not> exists (snap w) \<and> \<not> force then snap w else (snap w)\<lparr>exists := False\<rparr>)"
proof (cases "\<not> exists (snap w) \<and> \<not> force")
  case True
  then show ?thesis by (simp add: LvmSnapshot_cleanup_def)
next
  case False
  let ?w0 = "w\<lparr>snap := (snap w)\<lparr>exists := False\<rparr>\<rparr>"
  have "snap (snd (LvmSnapshot_cleanup E force w)) = snap ?w0"
    using False unfolding LvmSnapshot_cleanup_def Let_def
    apply (simp only: if_False)
    apply (intro keep_bindE[where g=snap] keep_simple os_wait_frame lvremove_step_snap)
    apply (auto intro!: keep_bindE[where g=snap] keep_simple check_call_frame)
    done
  then show ?thesis using False by simp
qed


lemma LvmSnapshot_cleanup_twice:
  "LvmSnapshot_cleanup E False (snd (LvmSnapshot_cleanup E False w)) =
     (Inr (), snd (LvmSnapshot_cleanup E False w))"
proof -
  have "\<not> exists (snap (snd (LvmSnapshot_cleanup E False w)))"
    by (simp add: LvmSnapshot_cleanup_snap)
  then show ?thesis by (simp add: LvmSnapshot_cleanup_def)
qed

lemma Snapshot_cleanup_cls: "cls (snap (snd (Snapshot_cleanup E w))) = cls (snap w)"
  by (simp add: Snapshot_cleanup_def LvmSnapshot_cleanup_snap split: snapshot_class.splits)

lemma Snapshot_cleanup_twice:
  "Snapshot_cleanup E (snd (Snapshot_cleanup E w)) = (Inr (), snd (Snapshot_cleanup E w))"
proof (cases "cls (snap w)")
  case NoSnapshot
  then show ?thesis by (simp add: Snapshot_cleanup_def)
next
  case LvmSnapshot
  then have "Snapshot_cleanup E w = LvmSnapshot_cleanup E False w"
    by (simp add: Snapshot_cleanup_def)
  moreover have "cls (snap (snd (LvmSnapshot_cleanup E False w))) = LvmSnapshot"
    using LvmSnapshot by (simp add: LvmSnapshot_cleanup_snap)
  ultimately show ?thesis
    by (simp add: Snapshot_cleanup_def[of E "snd (LvmSnapshot_cleanup E False w)"]
          LvmSnapshot_cleanup_twice)
qed

lemma effect_umount:
  "mounted (effect E [''umount'', m] w) = removeAll m (mounted w)"
  "blkdevs (effect E [''umount'', m] w) = blkdevs w"
  by (simp_all add: effect_def)

lemma effect_lvremove:
  "mounted (effect E ([''lvremove'', ''--force'', d] @ fl) w) = mounted w"
  "blkdevs (effect E ([''lvremove'', ''--force'', d] @ fl) w) = removeAll d (blkdevs w)"
  by (simp_all add: effect_def)

lemma cleanup_leaves_nothing:
  assumes ret: "LvmSnapshot_cleanup E False w = (Inr (), w1)"
      and ex: "exists (snap w)"
      and mp: "LvmSnapshot_mountpoint E (snap w) = Inr m"
      and dv: "device (snap w) = Inr d"
      and um: "\<And>n. run E n [''umount'', m] = Exit0"
      and lr: "\<And>n. run E n ([''lvremove'', ''--force'', d] @ lvm_flags (snap_verbose (snap w))) = Exit0"
  shows "m \<notin> set (mounted w1) \<and> d \<notin> set (blkdevs w1)"
proof -
  let ?s0 = "(snap w)\<lparr>exists := False\<rparr>"
  let ?w0 = "w\<lparr>snap := ?s0\<rparr>"
  have mp0: "LvmSnapshot_mountpoint E ?s0 = Inr m" using mp by (simp add: LvmSnapshot_mountpoint_def)
  have "device ?s0 = device (snap w)"
    by (simp add: device_def snapname_def split: option.splits)
  then have dv0: "device ?s0 = Inr d" using dv by simp
  obtain rw wa where ow: "os_wait E ?w0 = (rw, wa)" by (cases "os_wait E ?w0")
  have fa: "mounted wa = mounted w" "blkdevs wa = blkdevs w"
    using os_wait_frame(2,3)[of E ?w0] ow by simp_all
  let ?lv = "[''lvremove'', ''--force'', d] @ lvm_flags (snap_verbose (snap w))"
  define wb where "wb = (if m \<in> set (mounted wa)
                         then effect E [''umount'', m] (wa\<lparr>trace := trace wa @ [[''umount'', m]]\<rparr>)
                         else wa)"
  define wc where "wc = (if d \<in> set (blkdevs wb)
                         then effect E ?lv (wb\<lparr>trace := trace wb @ [?lv]\<rparr>)
                         else wb)"
  have b1: "m \<notin> set (mounted wb)" and b2: "blkdevs wb = blkdevs wa"
    by (simp_all add: wb_def effect_umount)
  have c1: "m \<notin> set (mounted wc)" and c2: "d \<notin> set (blkdevs wc)"
    using b1 by (simp_all add: wc_def effect_lvremove del: append.simps)
  have "rw = Inr () \<longrightarrow> LvmSnapshot_cleanup E False w = (Inr (), wc)"
    using ex ow
    by (auto simp add: LvmSnapshot_cleanup_def Let_def bindE_def liftE_def returnE_def mp0 dv0
          check_call_Exit0[OF um] check_call_Exit0[OF lr] wb_def wc_def simp del: append.simps)
  moreover have "rw \<noteq> Inr () \<longrightarrow> (\<exists>e. fst (LvmSnapshot_cleanup E False w) = Inl e)"
    using ex ow
    by (cases rw) (auto simp add: LvmSnapshot_cleanup_def Let_def bindE_def liftE_def mp0)
  ultimately have "w1 = wc" using ret by (cases "rw = Inr ()") auto
  then show ?thesis using c1 c2 by simp
qed

text \<open>
  C9, as stated, fails: when \<^verbatim>\<open>umount\<close> and \<^verbatim>\<open>lvremove\<close> fail, the first cleanup only
  warns, the second does nothing, and the mount point and the snapshot volume are still
  there after both.
\<close>

theorem cleanup_twice_counterexample:
  "fst (Snapshot_cleanup env_all_fail world_lvm) = Inr ()
   \<and> fst (Snapshot_cleanup env_all_fail (snd (Snapshot_cleanup env_all_fail world_lvm))) = Inr ()
   \<and> ''/media/bup/vg0-home''
       \<in> set (mounted (snd (Snapshot_cleanup env_all_fail (snd (Snapshot_cleanup env_all_fail world_lvm)))))
   \<and> ''/dev/vg0/snaphome''
       \<in> set (blkdevs (snd (Snapshot_cleanup env_all_fail (snd (Snapshot_cleanup env_all_fail world_lvm)))))
   \<and> trace (snd (Snapshot_cleanup env_all_fail (snd (Snapshot_cleanup env_all_fail world_lvm)))) =
       [[''umount'', ''/media/bup/vg0-home''],
        [''lvremove'', ''--force'', ''/dev/vg0/snaphome'', ''--quiet'']]"
  by (simp add: lvm_defs env_all_fail_def env0_def world_lvm_def world0_def)

text \<open>
  C9, amended. For every snapshot handle, also one left by a partly failed creation, a
  second cleanup right after a first (non-forced) one does not raise and does nothing at
  all: no command is started and the state is unchanged. No mount point and no snapshot
  volume is left behind when the first cleanup of an existing snapshot returned and its
  \<^verbatim>\<open>umount\<close> and \<^verbatim>\<open>lvremove\<close> commands succeeded; when they fail the code only warns.
\<close>

theorem cleanup_twice_is_noop:
  "Snapshot_cleanup E (snd (Snapshot_cleanup E w)) = (Inr (), snd (Snapshot_cleanup E w))
   \<and> LvmSnapshot_cleanup E False (snd (LvmSnapshot_cleanup E False w)) =
       (Inr (), snd (LvmSnapshot_cleanup E False w))
   \<and> (LvmSnapshot_cleanup E False w = (Inr (), w1) \<and> exists (snap w)
        \<and> LvmSnapshot_mountpoint E (snap w) = Inr m \<and> device (snap w) = Inr d
        \<and> (\<forall>n. run E n [''umount'', m] = Exit0)
        \<and> (\<forall>n. run E n ([''lvremove'', ''--force'', d] @ lvm_flags (snap_verbose (snap w))) = Exit0)
       \<longrightarrow> m \<notin> set (mounted (snd (LvmSnapshot_cleanup E False w1)))
         \<and> d \<notin> set (blkdevs (snd (LvmSnapshot_cleanup E False w1))))"
proof (intro conjI impI)
  show "Snapshot_cleanup E (snd (Snapshot_cleanup E w)) = (Inr (), snd (Snapshot_cleanup E w))"
    by (rule Snapshot_cleanup_twice)
  show "LvmSnapshot_cleanup E False (snd (LvmSnapshot_cleanup E False w)) =
       (Inr (), snd (LvmSnapshot_cleanup E False w))"
    by (rule LvmSnapshot_cleanup_twice)
next
  assume a: "LvmSnapshot_cleanup E False w = (Inr (), w1) \<and> exists (snap w)
        \<and> LvmSnapshot_mountpoint E (snap w) = Inr m \<and> device (snap w) = Inr d
        \<and> (\<forall>n. run E n [''umount'', m] = Exit0)
        \<and> (\<forall>n. run E n ([''lvremove'', ''--force'', d] @ lvm_flags (snap_verbose (snap w))) = Exit0)"
  then have n: "m \<notin> set (mounted w1) \<and> d \<notin> set (blkdevs w1)"
    using cleanup_leaves_nothing[of E w w1 m d] by blast
  have "LvmSnapshot_cleanup E False w1 = (Inr (), w1)"
    using LvmSnapshot_cleanup_twice[of E w] a by simp
  then show "m \<notin> set (mounted (snd (LvmSnapshot_cleanup E False w1)))"
    and "d \<notin> set (blkdevs (snd (LvmSnapshot_cleanup E False w1)))" using n by simp_all
qed

text \<open>The mounted snapshot of \<^verbatim>\<open>/home\<close>, every command succeeding: unmounted and
  removed by the first cleanup, untouched by the second.\<close>

theorem cleanup_twice_is_noop_witness:
  "Snapshot_cleanup env0 (snd (Snapshot_cleanup env0 world_lvm)) =
       (Inr (), world_lvm\<lparr>trace := [[''umount'', ''/media/bup/vg0-home''],
                                     [''lvremove'', ''--force'', ''/dev/vg0/snaphome'', ''--quiet'']],
                          mounted := [''/'', ''/home''], blkdevs := [''/dev/vg0/home''],
                          nwait := 1,
                          snap := (snap world_lvm)\<lparr>exists := False\<rparr>\<rparr>)"
proof -
  let ?w1 = "world_lvm\<lparr>trace := [[''umount'', ''/media/bup/vg0-home''],
                                     [''lvremove'', ''--force'', ''/dev/vg0/snaphome'', ''--quiet'']],
                          mounted := [''/'', ''/home''], blkdevs := [''/dev/vg0/home''],
                          nwait := 1,
                          snap := (snap world_lvm)\<lparr>exists := False\<rparr>\<rparr>"
  have c: "Snapshot_cleanup env0 world_lvm = (Inr (), ?w1)"
    by (simp add: lvm_defs env0_def world_lvm_def world0_def)
  have l: "LvmSnapshot_cleanup env0 False world_lvm = (Inr (), ?w1)"
    by (simp add: lvm_defs env0_def world_lvm_def world0_def)
  have h: "exists (snap world_lvm)"
    "LvmSnapshot_mountpoint env0 (snap world_lvm) = Inr ''/media/bup/vg0-home''"
    "device (snap world_lvm) = Inr ''/dev/vg0/snaphome''"
    "\<forall>n. run env0 n [''umount'', ''/media/bup/vg0-home''] = Exit0"
    "\<forall>n. run env0 n ([''lvremove'', ''--force'', ''/dev/vg0/snaphome'']
                        @ lvm_flags (snap_verbose (snap world_lvm))) = Exit0"
    by (simp_all add: lvm_defs env0_def world_lvm_def world0_def)
  from cleanup_twice_is_noop[of env0 world_lvm ?w1 "''/media/bup/vg0-home''" "''/dev/vg0/snaphome''"]
  have "Snapshot_cleanup env0 (snd (Snapshot_cleanup env0 world_lvm)) =
          (Inr (), snd (Snapshot_cleanup env0 world_lvm))"
    and "''/media/bup/vg0-home'' \<notin> set (mounted (snd (LvmSnapshot_cleanup env0 False ?w1)))"
    using l h by blast+
  then show ?thesis using c by simp
qed

end
